theory Spec2Isabelle
  imports Main "HOL-Library.AList"
begin

text \<open>
  A shallow embedding of \<^verbatim>\<open>submeta-dl.py\<close>: the script fetches a course page, reads the
  JSON payload embedded in it (\<open>get_json\<close>), turns it into a course of chapters and videos
  (\<open>get_course\<close>, \<open>sanitize_filename\<close>), logs in (\<open>get_token\<close>) and downloads every video
  into a directory per chapter (\<open>downloader\<close>); \<open>main\<close> strings these together.
  The definitions follow the source function by function; the network, the terminal and
  the download tool are an environment the functions take as an argument.
\<close>

section \<open>Strings\<close>

text \<open>
  A Python \<open>str\<close> is a sequence of Unicode code points, and \<open>len\<close> counts code points.
  A character is therefore modelled by its code point and a string by the list of them.
  \<open>str\<close> turns an ASCII literal of the source into such a list.
\<close>

type_synonym pychar = nat
type_synonym pystr = "pychar list"

definition str :: "string \<Rightarrow> pystr" where
  "str s = map of_char s"

text \<open>
  \<open>c.isalnum()\<close> is Unicode aware. On ASCII it accepts exactly the digits and the
  letters; what it answers on a code point from 128 on is decided by the Unicode character
  database of the interpreter, which is not part of the repository and is taken as the
  parameter \<open>ucd\<close>.
\<close>

type_synonym ucd = "pychar \<Rightarrow> bool"

definition isalnum :: "ucd \<Rightarrow> pychar \<Rightarrow> bool" where
  "isalnum ucd c =
     (if c < 128
      then (48 \<le> c \<and> c \<le> 57) \<or> (65 \<le> c \<and> c \<le> 90) \<or> (97 \<le> c \<and> c \<le> 122)
      else ucd c)"

text \<open>
  The database restricted to the Latin-1 supplement (U+0080 to U+00FF): the letters, the
  ordinal indicators, the micro sign, the superscript digits and the vulgar fractions are
  alphanumeric. It serves as a concrete database wherever a term is evaluated.
\<close>

definition latin1_alnum :: ucd where
  "latin1_alnum c =
     (c \<in> {170, 178, 179, 181, 185, 186, 188, 189, 190}
      \<or> (192 \<le> c \<and> c \<le> 214) \<or> (216 \<le> c \<and> c \<le> 246) \<or> (248 \<le> c \<and> c \<le> 255))"

text \<open>The character class \<open>[A-Za-z0-9 ._]\<close> that the specification names.\<close>

definition spec_charset :: "pychar \<Rightarrow> bool" where
  "spec_charset c =
     ((65 \<le> c \<and> c \<le> 90) \<or> (97 \<le> c \<and> c \<le> 122) \<or> (48 \<le> c \<and> c \<le> 57)
      \<or> c = 32 \<or> c = 46 \<or> c = 95)"

section \<open>sanitize_filename\<close>

text \<open>
  \<^verbatim>\<open>"".join([c if c.isalnum() or c in (' ', '.', '_') else '_' for c in filename])\<close>
  on a string argument: space is 32, dot 46 and underscore 95.
\<close>

definition sanitize_filename :: "ucd \<Rightarrow> pystr \<Rightarrow> pystr" where
  "sanitize_filename ucd filename =
     map (\<lambda>c. if isalnum ucd c \<or> c \<in> {32, 46, 95} then c else 95) filename"

section \<open>Parsed JSON values\<close>

text \<open>
  What \<open>json.loads\<close> and \<open>response.json()\<close> return: \<open>None\<close>, a bool, an int, a float
  (\<open>JFloat m e\<close> stands for m times 2 to the e; the program only tests whether it is
  zero), a string, a list or a dict. A dict is the list of its items in insertion order;
  a lookup finds the first binding of a key.
\<close>

datatype json =
    JNull
  | JBool bool
  | JInt int
  | JFloat int int
  | JStr pystr
  | JArr "json list"
  | JObj "(pystr \<times> json) list"

datatype pyerr = KeyError | TypeError | AttributeError | ValueError | OSError

text \<open>Truth value testing, as \<open>if x:\<close> and \<open>not x\<close> do it.\<close>

fun truthy :: "json \<Rightarrow> bool" where
  "truthy JNull = False"
| "truthy (JBool b) = b"
| "truthy (JInt i) = (i \<noteq> 0)"
| "truthy (JFloat m e) = (m \<noteq> 0)"
| "truthy (JStr s) = (s \<noteq> [])"
| "truthy (JArr xs) = (xs \<noteq> [])"
| "truthy (JObj kvs) = (kvs \<noteq> [])"

text \<open>
  \<open>v[k]\<close> with a string key: a dict raises KeyError on a missing key, every other value
  raises TypeError (a list and a string want an integer, the rest is not subscriptable).
\<close>

fun getitem :: "json \<Rightarrow> pystr \<Rightarrow> pyerr + json" where
  "getitem (JObj kvs) k = (case map_of kvs k of None \<Rightarrow> Inl KeyError | Some v \<Rightarrow> Inr v)"
| "getitem _ k = Inl TypeError"

text \<open>The keys of a dict in insertion order.\<close>

fun dict_keys :: "('k \<times> 'v) list \<Rightarrow> 'k list" where
  "dict_keys [] = []"
| "dict_keys ((k, v) # kvs) = k # filter (\<lambda>k'. k' \<noteq> k) (dict_keys kvs)"

text \<open>
  \<open>for x in v\<close>: a list yields its elements, a dict its keys, a string its characters as
  strings of length one; nothing else is iterable.
\<close>

fun py_iter :: "json \<Rightarrow> pyerr + json list" where
  "py_iter (JArr xs) = Inr xs"
| "py_iter (JObj kvs) = Inr (map JStr (dict_keys kvs))"
| "py_iter (JStr s) = Inr (map (\<lambda>c. JStr [c]) s)"
| "py_iter _ = Inl TypeError"

text \<open>\<open>list(d).index(k)\<close>: the first position of \<open>k\<close>, ValueError (here \<open>None\<close>) without one.\<close>

fun list_index :: "'a list \<Rightarrow> 'a \<Rightarrow> nat option" where
  "list_index [] x = None"
| "list_index (y # ys) x = (if y = x then Some 0 else map_option Suc (list_index ys x))"

text \<open>The decimal digits of a number, as an f-string formats an int.\<close>

fun str_of_nat :: "nat \<Rightarrow> pystr" where
  "str_of_nat n = (if n < 10 then [48 + n] else str_of_nat (n div 10) @ [48 + n mod 10])"

declare str_of_nat.simps [simp del]

section \<open>sanitize_filename on a value that is not a string\<close>

text \<open>
  \<open>get_course\<close> passes whatever the payload holds under \<open>title\<close>. The comprehension
  iterates it; every element must have \<open>isalnum\<close>, that is, be a string (of any length:
  \<open>e.isalnum()\<close> then asks for a non-empty string of alphanumeric characters), and the
  first element that is not raises AttributeError.
\<close>

definition str_isalnum :: "ucd \<Rightarrow> pystr \<Rightarrow> bool" where
  "str_isalnum ucd e = (e \<noteq> [] \<and> list_all (isalnum ucd) e)"

fun sanitize_items :: "ucd \<Rightarrow> json list \<Rightarrow> pyerr + pystr" where
  "sanitize_items ucd [] = Inr []"
| "sanitize_items ucd (JStr e # cs) =
     (case sanitize_items ucd cs of
        Inl err \<Rightarrow> Inl err
      | Inr r \<Rightarrow> Inr ((if str_isalnum ucd e \<or> e \<in> {[32], [46], [95]} then e else [95]) @ r))"
| "sanitize_items ucd (c # cs) = Inl AttributeError"

definition sanitize_filename_dyn :: "ucd \<Rightarrow> json \<Rightarrow> pyerr + pystr" where
  "sanitize_filename_dyn ucd filename =
     (case filename of
        JStr s \<Rightarrow> Inr (sanitize_filename ucd s)
      | _ \<Rightarrow> (case py_iter filename of Inl err \<Rightarrow> Inl err | Inr cs \<Rightarrow> sanitize_items ucd cs))"

section \<open>Effects\<close>

text \<open>
  A run is observed through the events it produces, in order: what it prints, the prompts,
  the lines it logs, the requests it sends, the directories it creates and the downloads
  it hands to the external tool. \<open>os.path.join\<close> is kept symbolic.
\<close>

datatype path = Root pystr | Join path pystr

datatype logmsg =
    NoJsonData pystr
  | NetworkErrorJson pystr
  | UnexpectedErrorJson pystr
  | KeyErrorCourse
  | UnexpectedErrorCourse
  | LoginSuccessful
  | LoginFailed json
  | NetworkErrorLogin
  | UnexpectedErrorLogin
  | Downloaded pystr
  | NetworkErrorDownload pystr
  | FailedDownload pystr

datatype event =
    Print string
  | Prompt string
  | LogInfo logmsg
  | LogError logmsg
  | HttpGet pystr
  | LoginPost pystr pystr
  | MakeDirs path
  | VideoPost json json
  | YdlDownload json path

text \<open>
  The world outside the program. A request ends in one of the exceptions the code names
  (HTTPError, ConnectionError, Timeout), in another exception, or in a parsed body.
  For the course page the environment answers what \<open>soup.find(type="application/json")\<close>
  finds: nothing, or the children of the element, each given by what
  \<open>json.loads(child.string)\<close> makes of it (\<open>None\<close> when that raises).
  The requests for videos are numbered in the order they are sent, so that the same
  video may be answered differently at every attempt.
  \<open>os.makedirs\<close> raises OSError where the file system refuses the directory (a name that
  is too long, a missing permission, a full disk), which the environment decides by
  \<open>os_error\<close>. Reading the user name and the password from the terminal is taken to
  succeed; the progress bars are not recorded.
\<close>

datatype response = NetworkError | OtherError | Response json

datatype page_result = PageNetworkError | PageOtherError | Page "json option list option"

datatype ydl_result = YdlNetworkError | YdlOtherError | YdlReturned

record env =
  page :: "pystr \<Rightarrow> page_result"
  username_input :: pystr
  password_input :: pystr
  login :: "pystr \<Rightarrow> pystr \<Rightarrow> response"
  video_api :: "nat \<Rightarrow> json \<Rightarrow> json \<Rightarrow> response"
  ydl :: "nat \<Rightarrow> json \<Rightarrow> path \<Rightarrow> ydl_result"
  os_error :: "path \<Rightarrow> bool"

text \<open>
  \<open>os.makedirs(p, exist_ok=True)\<close> raises OSError for the empty path (FileNotFoundError,
  whatever the file system) and whenever the environment refuses the directory. An event
  \<open>MakeDirs p\<close> stands for a call that returned.
\<close>

definition makedirs_raises :: "env \<Rightarrow> path \<Rightarrow> bool" where
  "makedirs_raises e p = (p = Root [] \<or> os_error e p)"

section \<open>get_json\<close>

text \<open>Python's \<open>None\<close> is \<open>JNull\<close>: the function returns it on every failure.\<close>

definition get_json :: "env \<Rightarrow> pystr \<Rightarrow> event list \<times> json" where
  "get_json e url =
     (case page e url of
        PageNetworkError \<Rightarrow> ([HttpGet url, LogError (NetworkErrorJson url)], JNull)
      | PageOtherError \<Rightarrow> ([HttpGet url, LogError (UnexpectedErrorJson url)], JNull)
      | Page None \<Rightarrow> ([HttpGet url, LogError (NoJsonData url)], JNull)
      | Page (Some []) \<Rightarrow> ([HttpGet url, LogError (NoJsonData url)], JNull)
      | Page (Some (None # rest)) \<Rightarrow> ([HttpGet url, LogError (UnexpectedErrorJson url)], JNull)
      | Page (Some (Some v # rest)) \<Rightarrow> ([HttpGet url], v))"

section \<open>get_course\<close>

text \<open>
  A Course and a Chapter are dicts: lists of items with distinct keys, in insertion order.
  \<open>d[k] = v\<close> is \<open>AList.update k v d\<close>: a key already there keeps its place and takes the
  new value, a new key goes to the end.
\<close>

type_synonym chapter_dict = "(pystr \<times> json) list"
type_synonym course_dict = "(pystr \<times> chapter_dict) list"

fun get_course_videos :: "ucd \<Rightarrow> json list \<Rightarrow> chapter_dict \<Rightarrow> pyerr + chapter_dict" where
  "get_course_videos ucd [] ch = Inr ch"
| "get_course_videos ucd (video # rest) ch =
     (case getitem video (str ''__typename'') of
        Inl err \<Rightarrow> Inl err
      | Inr ty \<Rightarrow>
          if ty = JStr (str ''Video'') then
            (case getitem video (str ''title'') of
               Inl err \<Rightarrow> Inl err
             | Inr title \<Rightarrow>
                 (case sanitize_filename_dyn ucd title of
                    Inl err \<Rightarrow> Inl err
                  | Inr video_title \<Rightarrow>
                      (case getitem video (str ''id'') of
                         Inl err \<Rightarrow> Inl err
                       | Inr vid \<Rightarrow>
                           get_course_videos ucd rest (AList.update video_title vid ch))))
          else get_course_videos ucd rest ch)"

fun get_course_chapters :: "ucd \<Rightarrow> json list \<Rightarrow> course_dict \<Rightarrow> pyerr + course_dict" where
  "get_course_chapters ucd [] course = Inr course"
| "get_course_chapters ucd (chapter # rest) course =
     (case getitem chapter (str ''title'') of
        Inl err \<Rightarrow> Inl err
      | Inr title \<Rightarrow>
          (case sanitize_filename_dyn ucd title of
             Inl err \<Rightarrow> Inl err
           | Inr chapter_title \<Rightarrow>
               (case getitem chapter (str ''contents'') of
                  Inl err \<Rightarrow> Inl err
                | Inr contents \<Rightarrow>
                    (case py_iter contents of
                       Inl err \<Rightarrow> Inl err
                     | Inr videos \<Rightarrow>
                         (case get_course_videos ucd videos [] of
                            Inl err \<Rightarrow> Inl err
                          | Inr ch \<Rightarrow>
                              get_course_chapters ucd rest
                                (AList.update chapter_title ch
                                   (AList.update chapter_title [] course)))))))"

text \<open>The body of the \<open>try\<close>.\<close>

definition get_course_try :: "ucd \<Rightarrow> json \<Rightarrow> pyerr + course_dict" where
  "get_course_try ucd json_data =
     (case getitem json_data (str ''props'') of
        Inl err \<Rightarrow> Inl err
      | Inr props \<Rightarrow>
          (case getitem props (str ''pageProps'') of
             Inl err \<Rightarrow> Inl err
           | Inr page_props \<Rightarrow>
               (case getitem page_props (str ''course'') of
                  Inl err \<Rightarrow> Inl err
                | Inr c \<Rightarrow>
                    (case getitem c (str ''chapters'') of
                       Inl err \<Rightarrow> Inl err
                     | Inr chapters \<Rightarrow>
                         (case py_iter chapters of
                            Inl err \<Rightarrow> Inl err
                          | Inr chs \<Rightarrow> get_course_chapters ucd chs [])))))"

definition get_course :: "ucd \<Rightarrow> json \<Rightarrow> event list \<times> course_dict option" where
  "get_course ucd json_data =
     (case get_course_try ucd json_data of
        Inr course \<Rightarrow> ([], Some course)
      | Inl KeyError \<Rightarrow> ([LogError KeyErrorCourse], None)
      | Inl err \<Rightarrow> ([LogError UnexpectedErrorCourse], None))"

section \<open>get_token\<close>

text \<open>\<open>data["data"]["login"].get("token")\<close>: only a dict has \<open>get\<close>.\<close>

definition login_token :: "json \<Rightarrow> pyerr + json" where
  "login_token data =
     (case getitem data (str ''data'') of
        Inl err \<Rightarrow> Inl err
      | Inr d \<Rightarrow>
          (case getitem d (str ''login'') of
             Inl err \<Rightarrow> Inl err
           | Inr (JObj kvs) \<Rightarrow>
               (case map_of kvs (str ''token'') of None \<Rightarrow> Inr JNull | Some t \<Rightarrow> Inr t)
           | Inr other \<Rightarrow> Inl AttributeError))"

definition get_token :: "env \<Rightarrow> pystr \<Rightarrow> pystr \<Rightarrow> event list \<times> json" where
  "get_token e username password =
     (case login e username password of
        NetworkError \<Rightarrow> ([LoginPost username password, LogError NetworkErrorLogin], JNull)
      | OtherError \<Rightarrow> ([LoginPost username password, LogError UnexpectedErrorLogin], JNull)
      | Response data \<Rightarrow>
          (case login_token data of
             Inl err \<Rightarrow> ([LoginPost username password, LogError UnexpectedErrorLogin], JNull)
           | Inr token \<Rightarrow>
               if truthy token
               then ([LoginPost username password, LogInfo LoginSuccessful,
                      Print ''Login successful! Token obtained''], token)
               else ([LoginPost username password, LogError (LoginFailed data)], JNull)))"

section \<open>downloader\<close>

text \<open>\<open>data['data']['result']['video']['token']\<close>\<close>

definition video_token :: "json \<Rightarrow> pyerr + json" where
  "video_token data =
     (case getitem data (str ''data'') of
        Inl err \<Rightarrow> Inl err
      | Inr d \<Rightarrow>
          (case getitem d (str ''result'') of
             Inl err \<Rightarrow> Inl err
           | Inr r \<Rightarrow>
               (case getitem r (str ''video'') of
                  Inl err \<Rightarrow> Inl err
                | Inr v \<Rightarrow> getitem v (str ''token''))))"

text \<open>
  The \<open>try\<close> of one video, the \<open>n\<close>-th request of the run: every exception is caught and
  logged with the file name. The download is recorded with the stream token the manifest
  URL is built from and the output template.
\<close>

definition download_video :: "env \<Rightarrow> nat \<Rightarrow> json \<Rightarrow> json \<Rightarrow> pystr \<Rightarrow> path \<Rightarrow> event list" where
  "download_video e n token vid filename filepath =
     (case video_api e n token vid of
        NetworkError \<Rightarrow> [VideoPost token vid, LogError (NetworkErrorDownload filename)]
      | OtherError \<Rightarrow> [VideoPost token vid, LogError (FailedDownload filename)]
      | Response data \<Rightarrow>
          (case video_token data of
             Inl err \<Rightarrow> [VideoPost token vid, LogError (FailedDownload filename)]
           | Inr vt \<Rightarrow>
               (case ydl e n vt filepath of
                  YdlNetworkError \<Rightarrow>
                    [VideoPost token vid, YdlDownload vt filepath,
                     LogError (NetworkErrorDownload filename)]
                | YdlOtherError \<Rightarrow>
                    [VideoPost token vid, YdlDownload vt filepath,
                     LogError (FailedDownload filename)]
                | YdlReturned \<Rightarrow>
                    [VideoPost token vid, YdlDownload vt filepath,
                     LogInfo (Downloaded filename)])))"

text \<open>
  The inner loop over the keys of \<open>course[chapter]\<close>. It returns the events and either the
  exception that left the loop or the number of the next request.
\<close>

fun downloader_videos ::
  "ucd \<Rightarrow> env \<Rightarrow> json \<Rightarrow> path \<Rightarrow> chapter_dict \<Rightarrow> pystr list \<Rightarrow> nat \<Rightarrow> event list \<times> (pyerr + nat)" where
  "downloader_videos ucd e token chapter_path ch [] n = ([], Inr n)"
| "downloader_videos ucd e token chapter_path ch (video # rest) n =
     (case list_index (map fst ch) video of
        None \<Rightarrow> ([], Inl ValueError)
      | Some i \<Rightarrow>
          (let video_index = i + 1;
               video_title = sanitize_filename ucd video;
               filename = str_of_nat video_index @ str ''. '' @ video_title;
               filepath = Join chapter_path (filename @ str ''.%(ext)s'')
           in case map_of ch video of
                None \<Rightarrow> ([], Inl KeyError)
              | Some vid \<Rightarrow>
                  (case downloader_videos ucd e token chapter_path ch rest (Suc n) of
                     (t, r) \<Rightarrow> (download_video e n token vid filename filepath @ t, r))))"

text \<open>
  The outer loop over the keys of the course. \<open>os.makedirs(chapter_path)\<close> stands outside
  every \<open>try\<close>: when it raises, the loop ends there with the exception.
\<close>

fun downloader_chapters ::
  "ucd \<Rightarrow> env \<Rightarrow> json \<Rightarrow> path \<Rightarrow> course_dict \<Rightarrow> pystr list \<Rightarrow> nat \<Rightarrow> event list \<times> (pyerr + nat)" where
  "downloader_chapters ucd e token download_path course [] n = ([], Inr n)"
| "downloader_chapters ucd e token download_path course (chapter # rest) n =
     (case list_index (map fst course) chapter of
        None \<Rightarrow> ([], Inl ValueError)
      | Some i \<Rightarrow>
          (let chapter_index = i + 1;
               chapter_title = sanitize_filename ucd chapter;
               chapter_path = Join download_path (str_of_nat chapter_index @ str ''. '' @ chapter_title)
           in if makedirs_raises e chapter_path then ([], Inl OSError)
              else
                (case map_of course chapter of
                   None \<Rightarrow> ([MakeDirs chapter_path], Inl KeyError)
                 | Some ch \<Rightarrow>
                     (case downloader_videos ucd e token chapter_path ch (map fst ch) n of
                        (t, Inl err) \<Rightarrow> (MakeDirs chapter_path # t, Inl err)
                      | (t, Inr n') \<Rightarrow>
                          (case downloader_chapters ucd e token download_path course rest n' of
                             (t', r) \<Rightarrow> (MakeDirs chapter_path # t @ t', r))))))"

definition download_root :: "pystr list \<Rightarrow> path" where
  "download_root args = Root (if length args = 3 then args ! 2 else str ''submeta-downloads'')"

definition downloader :: "ucd \<Rightarrow> env \<Rightarrow> course_dict \<Rightarrow> pystr list \<Rightarrow> json \<Rightarrow> event list \<times> (pyerr + unit)" where
  "downloader ucd e course args token =
     (if makedirs_raises e (download_root args) then ([], Inl OSError)
      else
        (case downloader_chapters ucd e token (download_root args) course (map fst course) 0 of
           (t, Inl err) \<Rightarrow> (MakeDirs (download_root args) # t, Inl err)
         | (t, Inr n) \<Rightarrow> (MakeDirs (download_root args) # t, Inr ())))"

section \<open>main and the script\<close>

text \<open>
  \<open>main\<close> returns \<open>-1\<close> or, after the last \<open>print\<close>, nothing (\<open>None\<close>); an exception that
  nothing catches leaves it instead.
\<close>

definition main :: "ucd \<Rightarrow> env \<Rightarrow> pystr list \<Rightarrow> event list \<times> (pyerr + int option)" where
  "main ucd e args =
     (if length args \<noteq> 2 \<and> length args \<noteq> 3
      then ([Print ''usage: submeta-dl.py <URL> <download path(optional)>''], Inr (Some (- 1)))
      else
        (case get_json e (args ! 1) of
           (t1, json_data) \<Rightarrow>
             if \<not> truthy json_data
             then (t1 @ [Print ''Failed to retrieve JSON data. Check the URL or logs for more information.''],
                   Inr (Some (- 1)))
             else
               (case get_course ucd json_data of
                  (t2, None) \<Rightarrow>
                    (t1 @ t2 @ [Print ''Failed to parse course data. Check logs for more information.''],
                     Inr (Some (- 1)))
                | (t2, Some course) \<Rightarrow>
                    if course = []
                    then (t1 @ t2 @ [Print ''Failed to parse course data. Check logs for more information.''],
                          Inr (Some (- 1)))
                    else
                      (case get_token e (username_input e) (password_input e) of
                         (t3, token) \<Rightarrow>
                           if \<not> truthy token
                           then (t1 @ t2 @ [Prompt ''Enter username: '', Prompt ''Enter password: ''] @ t3
                                 @ [Print ''Failed to login. Check credentials or logs for more information.''],
                                 Inr (Some (- 1)))
                           else
                             (case downloader ucd e course args token of
                                (t4, Inl err) \<Rightarrow>
                                  (t1 @ t2 @ [Prompt ''Enter username: '', Prompt ''Enter password: '']
                                   @ t3 @ t4, Inl err)
                              | (t4, Inr u) \<Rightarrow>
                                  (t1 @ t2 @ [Prompt ''Enter username: '', Prompt ''Enter password: '']
                                   @ t3 @ t4 @ [Print ''Download complete!''], Inr None))))))"

text \<open>
  The module's last statement is \<^verbatim>\<open>main(sys.argv)\<close>: the value \<open>main\<close> returns is dropped.
  The interpreter ends with status 0 when the module has run to its end, and with status 1
  when an exception was not caught.
\<close>

definition script :: "ucd \<Rightarrow> env \<Rightarrow> pystr list \<Rightarrow> event list \<times> int" where
  "script ucd e argv =
     (case main ucd e argv of
        (t, Inl err) \<Rightarrow> (t, 1)
      | (t, Inr v) \<Rightarrow> (t, 0))"

section \<open>The payload as the specification reads it\<close>

text \<open>
  The specification describes the parser on a payload of the expected shape: under
  \<open>props/pageProps/course/chapters\<close> a list of chapters, each with a string \<open>title\<close> and a
  list \<open>contents\<close> of items, each with a \<open>__typename\<close>, and each item tagged \<open>Video\<close> with
  a string \<open>title\<close> and an \<open>id\<close>. Further fields are allowed everywhere.
  \<open>spec_course\<close> reads such a payload into the chapters in document order, each with its
  title and the titles and identifiers of its Video items in document order; it is \<open>None\<close>
  on a payload of another shape.
\<close>

fun spec_videos :: "json list \<Rightarrow> (pystr \<times> json) list option" where
  "spec_videos [] = Some []"
| "spec_videos (item # rest) =
     (case getitem item (str ''__typename'') of
        Inl err \<Rightarrow> None
      | Inr ty \<Rightarrow>
          if ty = JStr (str ''Video'') then
            (case (getitem item (str ''title''), getitem item (str ''id'')) of
               (Inr (JStr t), Inr vid) \<Rightarrow> map_option ((#) (t, vid)) (spec_videos rest)
             | _ \<Rightarrow> None)
          else spec_videos rest)"

fun spec_chapters :: "json list \<Rightarrow> (pystr \<times> (pystr \<times> json) list) list option" where
  "spec_chapters [] = Some []"
| "spec_chapters (c # rest) =
     (case (getitem c (str ''title''), getitem c (str ''contents'')) of
        (Inr (JStr t), Inr (JArr items)) \<Rightarrow>
          (case spec_videos items of
             None \<Rightarrow> None
           | Some vs \<Rightarrow> map_option ((#) (t, vs)) (spec_chapters rest))
      | _ \<Rightarrow> None)"

definition spec_course :: "json \<Rightarrow> (pystr \<times> (pystr \<times> json) list) list option" where
  "spec_course json_data =
     (case getitem json_data (str ''props'') of
        Inl err \<Rightarrow> None
      | Inr props \<Rightarrow>
          (case getitem props (str ''pageProps'') of
             Inl err \<Rightarrow> None
           | Inr page_props \<Rightarrow>
               (case getitem page_props (str ''course'') of
                  Inl err \<Rightarrow> None
                | Inr c \<Rightarrow>
                    (case getitem c (str ''chapters'') of
                       Inr (JArr chs) \<Rightarrow> spec_chapters chs
                     | _ \<Rightarrow> None))))"

text \<open>The items with every key sanitised, in the same order.\<close>

definition sanitize_keys :: "ucd \<Rightarrow> (pystr \<times> 'v) list \<Rightarrow> (pystr \<times> 'v) list" where
  "sanitize_keys ucd items = map (\<lambda>kv. (sanitize_filename ucd (fst kv), snd kv)) items"

text \<open>The value of the last item with the key \<open>k\<close>.\<close>

definition last_item :: "('k \<times> 'v) list \<Rightarrow> 'k \<Rightarrow> 'v option" where
  "last_item items k = map_of (rev items) k"

text \<open>The dict \<open>d\<close> after the assignments \<open>d[k] = v\<close> for the items \<open>(k, v)\<close> in order.\<close>

definition dict_of :: "('k \<times> 'v) list \<Rightarrow> ('k \<times> 'v) list \<Rightarrow> ('k \<times> 'v) list" where
  "dict_of d items = fold (\<lambda>kv. AList.update (fst kv) (snd kv)) items d"

section \<open>Example payloads\<close>

definition content_item :: "string \<Rightarrow> string \<Rightarrow> int \<Rightarrow> json" where
  "content_item ty title vid =
     JObj [(str ''__typename'', JStr (str ty)), (str ''title'', JStr (str title)),
           (str ''id'', JInt vid)]"

definition chapter_item :: "string \<Rightarrow> json list \<Rightarrow> json" where
  "chapter_item title items = JObj [(str ''title'', JStr (str title)), (str ''contents'', JArr items)]"

definition page_payload :: "json list \<Rightarrow> json" where
  "page_payload chapters =
     JObj [(str ''props'',
       JObj [(str ''pageProps'',
         JObj [(str ''course'', JObj [(str ''chapters'', JArr chapters)])])])]"

text \<open>Two chapters, the first with three videos and a quiz, the second with one video.\<close>

definition payload_3_1 :: json where
  "payload_3_1 =
     page_payload
       [chapter_item ''Intro''
          [content_item ''Video'' ''Welcome'' 11, content_item ''Quiz'' ''Check'' 12,
           content_item ''Video'' ''Set-up'' 13, content_item ''Video'' ''Tour'' 14],
        chapter_item ''Basics'' [content_item ''Video'' ''First steps'' 21]]"

text \<open>
  The same shape, but the titles \<open>a/b\<close> and \<open>a:b\<close> of two videos of the first chapter both
  sanitise to \<open>a_b\<close>.
\<close>

definition payload_video_clash :: json where
  "payload_video_clash =
     page_payload
       [chapter_item ''Intro''
          [content_item ''Video'' ''a/b'' 11, content_item ''Video'' ''c'' 12,
           content_item ''Video'' ''a:b'' 13],
        chapter_item ''Basics'' [content_item ''Video'' ''d'' 21]]"

text \<open>Two chapters whose titles \<open>A/B\<close> and \<open>A:B\<close> both sanitise to \<open>A_B\<close>.\<close>

definition payload_chapter_clash :: json where
  "payload_chapter_clash =
     page_payload
       [chapter_item ''A/B'' [content_item ''Video'' ''x'' 1, content_item ''Video'' ''y'' 2],
        chapter_item ''A:B'' [content_item ''Video'' ''z?'' 3, content_item ''Video'' ''z!'' 4]]"

section \<open>The run as the specification describes it\<close>

text \<open>
  The file name stem of the \<open>j\<close>-th video and the directory of the \<open>i\<close>-th chapter, and
  the events of the two loops when chapters and videos are numbered by their positions:
  the course is walked item by item, a counter giving the position.
\<close>

definition video_stem :: "ucd \<Rightarrow> nat \<Rightarrow> pystr \<Rightarrow> pystr" where
  "video_stem ucd j title = str_of_nat j @ str ''. '' @ sanitize_filename ucd title"

definition chapter_dir :: "ucd \<Rightarrow> path \<Rightarrow> nat \<Rightarrow> pystr \<Rightarrow> path" where
  "chapter_dir ucd root i title = Join root (str_of_nat i @ str ''. '' @ sanitize_filename ucd title)"

fun videos_trace :: "ucd \<Rightarrow> env \<Rightarrow> json \<Rightarrow> path \<Rightarrow> nat \<Rightarrow> chapter_dict \<Rightarrow> nat \<Rightarrow> event list" where
  "videos_trace ucd e token dir j [] n = []"
| "videos_trace ucd e token dir j ((title, vid) # rest) n =
     download_video e n token vid (video_stem ucd (Suc j) title)
       (Join dir (video_stem ucd (Suc j) title @ str ''.%(ext)s''))
     @ videos_trace ucd e token dir (Suc j) rest (Suc n)"

fun chapters_trace :: "ucd \<Rightarrow> env \<Rightarrow> json \<Rightarrow> path \<Rightarrow> nat \<Rightarrow> course_dict \<Rightarrow> nat \<Rightarrow> event list" where
  "chapters_trace ucd e token root i [] n = []"
| "chapters_trace ucd e token root i ((title, ch) # rest) n =
     MakeDirs (chapter_dir ucd root (Suc i) title)
     # videos_trace ucd e token (chapter_dir ucd root (Suc i) title) 0 ch n
     @ chapters_trace ucd e token root (Suc i) rest (n + length ch)"

fun made_dir :: "event \<Rightarrow> path list" where
  "made_dir (MakeDirs p) = [p]"
| "made_dir ev = []"

fun posted_video :: "event \<Rightarrow> json list" where
  "posted_video (VideoPost token vid) = [vid]"
| "posted_video ev = []"

fun logged_file :: "event \<Rightarrow> pystr list" where
  "logged_file (LogInfo (Downloaded f)) = [f]"
| "logged_file (LogError (NetworkErrorDownload f)) = [f]"
| "logged_file (LogError (FailedDownload f)) = [f]"
| "logged_file ev = []"

fun ydl_download :: "event \<Rightarrow> (json \<times> path) list" where
  "ydl_download (YdlDownload vt p) = [(vt, p)]"
| "ydl_download ev = []"

definition made_dirs :: "event list \<Rightarrow> path list" where
  "made_dirs t = concat (map made_dir t)"

definition posted_videos :: "event list \<Rightarrow> json list" where
  "posted_videos t = concat (map posted_video t)"

definition logged_files :: "event list \<Rightarrow> pystr list" where
  "logged_files t = concat (map logged_file t)"

definition ydl_downloads :: "event list \<Rightarrow> (json \<times> path) list" where
  "ydl_downloads t = concat (map ydl_download t)"

text \<open>
  The stream token a response resolves to, as the specification describes the resolver:
  the answer must be a body with the nested fields \<open>data\<close>, \<open>result\<close>, \<open>video\<close>, \<open>token\<close>;
  a request that failed and a body without them resolve to nothing.
\<close>

fun field :: "json \<Rightarrow> pystr \<Rightarrow> json option" where
  "field (JObj kvs) k = map_of kvs k"
| "field v k = None"

fun resolved_token :: "response \<Rightarrow> json option" where
  "resolved_token (Response body) =
     Option.bind (field body (str ''data'')) (\<lambda>d.
       Option.bind (field d (str ''result'')) (\<lambda>r.
         Option.bind (field r (str ''video'')) (\<lambda>v. field v (str ''token''))))"
| "resolved_token r = None"

text \<open>
  What is handed to the download tool: for each video whose request resolved to a stream
  token, in order, that token and the output template, which is the file name stem of
  the video with \<open>.%(ext)s\<close> in the directory of its chapter.
\<close>

fun video_downloads ::
  "ucd \<Rightarrow> env \<Rightarrow> json \<Rightarrow> path \<Rightarrow> nat \<Rightarrow> chapter_dict \<Rightarrow> nat \<Rightarrow> (json \<times> path) list" where
  "video_downloads ucd e token dir j [] n = []"
| "video_downloads ucd e token dir j ((title, vid) # rest) n =
     (case resolved_token (video_api e n token vid) of
        None \<Rightarrow> []
      | Some vt \<Rightarrow> [(vt, Join dir (video_stem ucd (Suc j) title @ str ''.%(ext)s''))])
     @ video_downloads ucd e token dir (Suc j) rest (Suc n)"

fun course_downloads ::
  "ucd \<Rightarrow> env \<Rightarrow> json \<Rightarrow> path \<Rightarrow> nat \<Rightarrow> course_dict \<Rightarrow> nat \<Rightarrow> (json \<times> path) list" where
  "course_downloads ucd e token root i [] n = []"
| "course_downloads ucd e token root i ((title, ch) # rest) n =
     video_downloads ucd e token (chapter_dir ucd root (Suc i) title) 0 ch n
     @ course_downloads ucd e token root (Suc i) rest (n + length ch)"

text \<open>The events of the videos of each chapter, chapter by chapter.\<close>

fun chapter_segments ::
  "ucd \<Rightarrow> env \<Rightarrow> json \<Rightarrow> path \<Rightarrow> nat \<Rightarrow> course_dict \<Rightarrow> nat \<Rightarrow> event list list" where
  "chapter_segments ucd e token root i [] n = []"
| "chapter_segments ucd e token root i ((title, ch) # rest) n =
     videos_trace ucd e token (chapter_dir ucd root (Suc i) title) 0 ch n
     # chapter_segments ucd e token root (Suc i) rest (n + length ch)"

text \<open>No \<open>os.makedirs\<close> of the run raises: neither for the root nor for a chapter.\<close>

definition dirs_creatable :: "ucd \<Rightarrow> env \<Rightarrow> path \<Rightarrow> course_dict \<Rightarrow> bool" where
  "dirs_creatable ucd e root course =
     (\<not> makedirs_raises e root
      \<and> list_all (\<lambda>ic. \<not> makedirs_raises e (chapter_dir ucd root (Suc (fst ic)) (fst (snd ic))))
           (enumerate 0 course))"

text \<open>A course is a dict of dicts: keys are distinct at both levels.\<close>

definition is_dicts :: "course_dict \<Rightarrow> bool" where
  "is_dicts course = (distinct (map fst course) \<and> list_all (\<lambda>c. distinct (map fst (snd c))) course)"

section \<open>Example environments\<close>

definition login_ok_body :: json where
  "login_ok_body =
     JObj [(str ''data'', JObj [(str ''login'', JObj [(str ''token'', JStr (str ''bearer'')),
        (str ''errors'', JNull)])])]"

definition login_body_without_token :: json where
  "login_body_without_token =
     JObj [(str ''data'', JObj [(str ''login'', JObj [(str ''user'', JNull),
        (str ''errors'', JArr [JObj [(str ''key'', JStr (str ''password'')),
                                    (str ''message'', JStr (str ''invalid''))]])])])]"

definition video_ok_body :: json where
  "video_ok_body =
     JObj [(str ''data'', JObj [(str ''result'', JObj [(str ''video'',
        JObj [(str ''token'', JStr (str ''stream''))])])])]"

definition env_of :: "page_result \<Rightarrow> response \<Rightarrow> (nat \<Rightarrow> response) \<Rightarrow> env" where
  "env_of pg lg va =
     \<lparr>page = \<lambda>url. pg, username_input = str ''user'', password_input = str ''secret'',
      login = \<lambda>u p. lg, video_api = \<lambda>n token vid. va n, ydl = \<lambda>n vt p. YdlReturned,
      os_error = \<lambda>p. False\<rparr>"

definition args_default :: "pystr list" where
  "args_default = [str ''submeta-dl.py'', str ''https://submeta.io/course'']"

definition env_503 :: env where
  "env_503 =
     env_of (Page (Some [Some payload_3_1])) (Response login_ok_body)
       (\<lambda>n. if n = 1 then NetworkError else Response video_ok_body)"

text \<open>The course \<open>get_course\<close> makes of \<open>payload_3_1\<close>.\<close>

definition course_3_1 :: course_dict where
  "course_3_1 =
     [(str ''Intro'', [(str ''Welcome'', JInt 11), (str ''Set_up'', JInt 13), (str ''Tour'', JInt 14)]),
      (str ''Basics'', [(str ''First steps'', JInt 21)])]"

text \<open>The command line with an empty download path.\<close>

definition args_empty_path :: "pystr list" where
  "args_empty_path = [str ''submeta-dl.py'', str ''https://submeta.io/course'', []]"

text \<open>As \<open>env_503\<close>, but the directory of the second chapter cannot be created.\<close>

definition env_503_no_dir :: env where
  "env_503_no_dir =
     env_503\<lparr>os_error := \<lambda>p. p = Join (Root (str ''submeta-downloads'')) (str ''2. Basics'')\<rparr>"

definition env_empty_course :: env where
  "env_empty_course =
     env_of (Page (Some [Some (page_payload [])])) (Response login_ok_body)
       (\<lambda>n. Response video_ok_body)"

definition env_empty_chapter :: env where
  "env_empty_chapter =
     env_of (Page (Some [Some (page_payload [chapter_item ''Empty'' []])])) (Response login_ok_body)
       (\<lambda>n. Response video_ok_body)"

text \<open>Every key of the dict is a string that \<open>sanitize_filename\<close> leaves as it is.\<close>

definition keys_sanitized :: "ucd \<Rightarrow> (pystr \<times> 'v) list \<Rightarrow> bool" where
  "keys_sanitized ucd d = list_all (\<lambda>kv. sanitize_filename ucd (fst kv) = fst kv) d"

section \<open>Properties of sanitize_filename\<close>

lemma isalnum_ascii: "c < 128 \<Longrightarrow> (isalnum ucd c \<or> c \<in> {32, 46, 95}) = spec_charset c"
  by (auto simp: isalnum_def spec_charset_def)

text \<open>
  Claim C3, as the code has it. For every string, \<open>sanitize_filename\<close> returns a string of
  the same length; at each position it keeps the character when \<open>str.isalnum\<close> accepts it
  or it is a space, a dot or an underscore, and writes an underscore otherwise; the result
  holds only such characters; and on ASCII characters the kept ones are exactly those of
  \<open>[A-Za-z0-9 ._]\<close>.
\<close>

theorem sanitize_filename_chars:
  "length (sanitize_filename ucd s) = length s
   \<and> (\<forall>i < length s. sanitize_filename ucd s ! i =
         (if isalnum ucd (s ! i) \<or> s ! i \<in> {32, 46, 95} then s ! i else 95))
   \<and> (\<forall>c \<in> set (sanitize_filename ucd s). isalnum ucd c \<or> c \<in> {32, 46, 95})
   \<and> (\<forall>c < 128. (isalnum ucd c \<or> c \<in> {32, 46, 95}) = spec_charset c)"
proof (intro conjI)
  show "length (sanitize_filename ucd s) = length s"
    by (simp add: sanitize_filename_def)
  show "\<forall>i < length s. sanitize_filename ucd s ! i =
         (if isalnum ucd (s ! i) \<or> s ! i \<in> {32, 46, 95} then s ! i else 95)"
    by (simp add: sanitize_filename_def)
  show "\<forall>c \<in> set (sanitize_filename ucd s). isalnum ucd c \<or> c \<in> {32, 46, 95}"
    by (auto simp: sanitize_filename_def)
  show "\<forall>c < 128. (isalnum ucd c \<or> c \<in> {32, 46, 95}) = spec_charset c"
    using isalnum_ascii by blast
qed

theorem sanitize_filename_chars_witness:
  "sanitize_filename latin1_alnum [97, 47, 233] ! 1 = 95
   \<and> sanitize_filename latin1_alnum [97, 47, 233] ! 2 = 233
   \<and> length (sanitize_filename latin1_alnum [97, 47, 233]) = 3
   \<and> spec_charset 97 \<and> \<not> spec_charset 47"
proof -
  have a: "(1::nat) < length [97::nat, 47, 233]" and b: "(2::nat) < length [97::nat, 47, 233]"
    and c: "(97::nat) < 128" and d: "(47::nat) < 128"
    by simp_all
  from sanitize_filename_chars [of latin1_alnum "[97, 47, 233]"] a b c d
  show ?thesis
    by (simp add: isalnum_def latin1_alnum_def spec_charset_def)
qed

text \<open>
  The claim as the specification words it fails: U+00E9 (e with acute accent) is outside
  \<open>[A-Za-z0-9 ._]\<close>, yet \<open>str.isalnum\<close> accepts it and it is kept.
\<close>

theorem sanitize_filename_keeps_non_ascii_letter:
  "\<not> spec_charset 233 \<and> sanitize_filename latin1_alnum [233] \<noteq> [95]
   \<and> \<not> spec_charset (sanitize_filename latin1_alnum [233] ! 0)"
  by (simp add: spec_charset_def sanitize_filename_def isalnum_def latin1_alnum_def)

section \<open>Dicts\<close>

lemma dict_of_Nil [simp]: "dict_of d [] = d"
  by (simp add: dict_of_def)

lemma dict_of_Cons [simp]: "dict_of d ((k, v) # xs) = dict_of (AList.update k v d) xs"
  by (simp add: dict_of_def)

lemma dict_of_distinct: "distinct (map fst d) \<Longrightarrow> distinct (map fst (dict_of d xs))"
  by (induction xs arbitrary: d) (auto simp: AList.distinct_update)

lemma dict_of_map_of: "map_of (dict_of d xs) = map_of d ++ map_of (rev xs)"
proof (induction xs arbitrary: d)
  case Nil
  then show ?case by simp
next
  case (Cons x xs)
  obtain k v where x: "x = (k, v)" by (cases x)
  show ?case
    by (rule ext) (simp add: x Cons.IH AList.update_conv' map_add_def split: option.splits)
qed

lemma update_fresh: "k \<notin> fst ` set d \<Longrightarrow> AList.update k v d = d @ [(k, v)]"
  by (induction d) auto

lemma dict_of_distinct_id: "distinct (map fst (d @ xs)) \<Longrightarrow> dict_of d xs = d @ xs"
proof (induction xs arbitrary: d)
  case Nil
  then show ?case by simp
next
  case (Cons x xs)
  obtain k v where x: "x = (k, v)" by (cases x)
  from Cons.prems have fresh: "k \<notin> fst ` set d" by (auto simp: x)
  from Cons.prems have "distinct (map fst ((d @ [(k, v)]) @ xs))" by (auto simp: x)
  then have "dict_of (d @ [(k, v)]) xs = (d @ [(k, v)]) @ xs" by (rule Cons.IH)
  then show ?case by (simp add: x update_fresh [OF fresh])
qed

lemma dict_of_keys: "fst ` set (dict_of d xs) = fst ` set d \<union> fst ` set xs"
proof -
  have "dom (map_of (dict_of d xs)) = dom (map_of d) \<union> dom (map_of (rev xs))"
    by (simp add: dict_of_map_of Un_commute)
  then show ?thesis by (simp add: dom_map_of_conv_image_fst)
qed

lemma dict_of_length: "length (dict_of [] xs) = card (fst ` set xs)"
proof -
  have "distinct (map fst (dict_of [] xs))" by (simp add: dict_of_distinct)
  then have "length (map fst (dict_of [] xs)) = card (set (map fst (dict_of [] xs)))"
    by (simp only: distinct_card)
  then show ?thesis by (simp add: dict_of_keys)
qed

lemma dict_of_length_le: "length (dict_of [] xs) \<le> length xs"
  by (metis dict_of_length card_length length_map set_map)

lemma dict_of_length_less: "length (dict_of [] xs) < length xs \<longleftrightarrow> \<not> distinct (map fst xs)"
proof -
  have "card (set (map fst xs)) = length (map fst xs) \<longleftrightarrow> distinct (map fst xs)"
    using card_distinct distinct_card by metis
  moreover have "card (set (map fst xs)) \<le> length (map fst xs)" by (rule card_length)
  ultimately show ?thesis by (auto simp: dict_of_length)
qed

section \<open>get_course on a payload of the expected shape\<close>

lemma sanitize_dyn_str [simp]: "sanitize_filename_dyn ucd (JStr s) = Inr (sanitize_filename ucd s)"
  by (simp add: sanitize_filename_dyn_def)

lemma get_course_videos_spec:
  "spec_videos items = Some vs \<Longrightarrow>
   get_course_videos ucd items ch = Inr (dict_of ch (sanitize_keys ucd vs))"
proof (induction items arbitrary: vs ch)
  case Nil
  then show ?case by (simp add: sanitize_keys_def)
next
  case (Cons item rest)
  then show ?case
    by (auto simp: sanitize_keys_def split: sum.splits if_splits json.splits)
qed

lemma get_course_chapters_spec:
  "spec_chapters cs = Some chs \<Longrightarrow>
   get_course_chapters ucd cs course =
     Inr (dict_of course
            (map (\<lambda>c. (sanitize_filename ucd (fst c), dict_of [] (sanitize_keys ucd (snd c)))) chs))"
proof (induction cs arbitrary: chs course)
  case Nil
  then show ?case by simp
next
  case (Cons c rest)
  then show ?case
    by (auto simp: get_course_videos_spec AList.update_last
             split: sum.splits if_splits json.splits option.splits)
qed

lemma get_course_try_spec:
  "spec_course j = Some chs \<Longrightarrow>
   get_course_try ucd j =
     Inr (dict_of []
            (map (\<lambda>c. (sanitize_filename ucd (fst c), dict_of [] (sanitize_keys ucd (snd c)))) chs))"
  by (auto simp: spec_course_def get_course_try_def get_course_chapters_spec
           split: sum.splits json.splits)

lemma get_course_spec:
  "spec_course j = Some chs \<Longrightarrow>
   get_course ucd j =
     ([], Some (dict_of []
            (map (\<lambda>c. (sanitize_filename ucd (fst c), dict_of [] (sanitize_keys ucd (snd c)))) chs)))"
  by (simp add: get_course_def get_course_try_spec)

lemmas eval_defs = page_payload_def chapter_item_def content_item_def spec_course_def str_def
  sanitize_filename_def isalnum_def sanitize_keys_def get_course_def get_course_try_def

text \<open>
  Claim C6, as the code has it. On a payload of the expected shape whose chapter titles
  sanitise to pairwise distinct strings and, within each chapter, whose Video titles do so
  too, \<open>get_course\<close> logs nothing and returns the chapters in document order, each under
  its sanitised title with its Video items in document order, each under its sanitised
  title with its identifier; items with another \<open>__typename\<close> are left out. The example
  of two chapters with three videos and one video is the witness.
\<close>

theorem get_course_document_order:
  assumes "spec_course j = Some chs"
    and "distinct (map (\<lambda>c. sanitize_filename ucd (fst c)) chs)"
    and "\<forall>c \<in> set chs. distinct (map (\<lambda>v. sanitize_filename ucd (fst v)) (snd c))"
  shows "get_course ucd j =
           ([], Some (map (\<lambda>c. (sanitize_filename ucd (fst c), sanitize_keys ucd (snd c))) chs))"
proof -
  have inner: "dict_of [] (sanitize_keys ucd (snd c)) = sanitize_keys ucd (snd c)" if "c \<in> set chs" for c
  proof -
    from assms(3) that have "distinct (map fst ([] @ sanitize_keys ucd (snd c)))"
      by (simp add: sanitize_keys_def comp_def)
    then show ?thesis using dict_of_distinct_id by fastforce
  qed
  then have eq: "map (\<lambda>c. (sanitize_filename ucd (fst c), dict_of [] (sanitize_keys ucd (snd c)))) chs
      = map (\<lambda>c. (sanitize_filename ucd (fst c), sanitize_keys ucd (snd c))) chs"
    by simp
  have "distinct (map fst ([] @ map (\<lambda>c. (sanitize_filename ucd (fst c), sanitize_keys ucd (snd c))) chs))"
    using assms(2) by (simp add: comp_def)
  then have outer: "dict_of [] (map (\<lambda>c. (sanitize_filename ucd (fst c), sanitize_keys ucd (snd c))) chs)
      = map (\<lambda>c. (sanitize_filename ucd (fst c), sanitize_keys ucd (snd c))) chs"
    using dict_of_distinct_id by fastforce
  have "get_course ucd j =
     ([], Some (dict_of []
            (map (\<lambda>c. (sanitize_filename ucd (fst c), dict_of [] (sanitize_keys ucd (snd c)))) chs)))"
    by (rule get_course_spec [OF assms(1)])
  then show ?thesis
    by (simp only: eq outer)
qed

theorem get_course_document_order_witness:
  "spec_course payload_3_1 =
     Some [(str ''Intro'', [(str ''Welcome'', JInt 11), (str ''Set-up'', JInt 13), (str ''Tour'', JInt 14)]),
           (str ''Basics'', [(str ''First steps'', JInt 21)])]
   \<and> get_course latin1_alnum payload_3_1 =
     ([], Some [(str ''Intro'', [(str ''Welcome'', JInt 11), (str ''Set_up'', JInt 13), (str ''Tour'', JInt 14)]),
                (str ''Basics'', [(str ''First steps'', JInt 21)])])"
proof -
  let ?chs = "[(str ''Intro'', [(str ''Welcome'', JInt 11), (str ''Set-up'', JInt 13), (str ''Tour'', JInt 14)]),
           (str ''Basics'', [(str ''First steps'', JInt 21)])]"
  have h: "spec_course payload_3_1 = Some ?chs"
    by (simp add: payload_3_1_def eval_defs)
  have d1: "distinct (map (\<lambda>c. sanitize_filename latin1_alnum (fst c)) ?chs)"
    by (simp add: eval_defs)
  have d2: "\<forall>c \<in> set ?chs. distinct (map (\<lambda>v. sanitize_filename latin1_alnum (fst v)) (snd c))"
    by (simp add: eval_defs)
  from get_course_document_order [OF h d1 d2] h show ?thesis
    by (simp add: eval_defs)
qed

text \<open>
  Without the distinctness the claim fails: two of the three videos of the first chapter
  of \<open>payload_video_clash\<close> share the sanitised title, and the parsed chapter has two
  entries, not three.
\<close>

theorem get_course_video_clash:
  "spec_course payload_video_clash =
     Some [(str ''Intro'', [(str ''a/b'', JInt 11), (str ''c'', JInt 12), (str ''a:b'', JInt 13)]),
           (str ''Basics'', [(str ''d'', JInt 21)])]
   \<and> get_course latin1_alnum payload_video_clash =
     ([], Some [(str ''Intro'', [(str ''a_b'', JInt 13), (str ''c'', JInt 12)]),
                (str ''Basics'', [(str ''d'', JInt 21)])])
   \<and> get_course latin1_alnum payload_video_clash \<noteq>
     ([], Some (map (\<lambda>c. (sanitize_filename latin1_alnum (fst c), sanitize_keys latin1_alnum (snd c)))
        [(str ''Intro'', [(str ''a/b'', JInt 11), (str ''c'', JInt 12), (str ''a:b'', JInt 13)]),
         (str ''Basics'', [(str ''d'', JInt 21)])]))"
  by (simp add: payload_video_clash_def eval_defs)

text \<open>
  Claim C10. On a payload of the expected shape the parsed course has one key for each
  sanitised chapter title, so it is shorter than the chapter list exactly when two titles
  sanitise to the same string; under a key stands what the last chapter with that
  sanitised title gives, and there each sanitised video title maps to the identifier of
  the last Video item with it, the chapter being shorter than its list of Video items
  exactly when two of their titles clash.
\<close>

theorem get_course_last_wins:
  assumes "spec_course j = Some chs"
  shows "\<exists>course. get_course ucd j = ([], Some course)
     \<and> distinct (map fst course)
     \<and> fst ` set course = (\<lambda>c. sanitize_filename ucd (fst c)) ` set chs
     \<and> length course \<le> length chs
     \<and> (length course < length chs \<longleftrightarrow> \<not> distinct (map (\<lambda>c. sanitize_filename ucd (fst c)) chs))
     \<and> (\<forall>k vs. last_item (sanitize_keys ucd chs) k = Some vs \<longrightarrow>
          (\<exists>ch. map_of course k = Some ch
             \<and> distinct (map fst ch)
             \<and> (\<forall>t. map_of ch t = last_item (sanitize_keys ucd vs) t)
             \<and> length ch \<le> length vs
             \<and> (length ch < length vs \<longleftrightarrow> \<not> distinct (map (\<lambda>v. sanitize_filename ucd (fst v)) vs))))"
proof -
  let ?f = "\<lambda>c. (sanitize_filename ucd (fst c), dict_of [] (sanitize_keys ucd (snd c)))"
  let ?course = "dict_of [] (map ?f chs)"
  have run: "get_course ucd j = ([], Some ?course)"
    by (rule get_course_spec [OF assms])
  have keys: "map fst (map ?f chs) = map (\<lambda>c. sanitize_filename ucd (fst c)) chs"
    by simp
  have d: "distinct (map fst ?course)"
    by (simp add: dict_of_distinct)
  have k: "fst ` set ?course = (\<lambda>c. sanitize_filename ucd (fst c)) ` set chs"
    by (simp add: dict_of_keys image_image)
  have le: "length ?course \<le> length chs"
    using dict_of_length_le [of "map ?f chs"] by simp
  have less: "length ?course < length chs \<longleftrightarrow> \<not> distinct (map (\<lambda>c. sanitize_filename ucd (fst c)) chs)"
    using dict_of_length_less [of "map ?f chs"] by (simp add: comp_def)
  have look: "\<exists>ch. map_of ?course k = Some ch
             \<and> distinct (map fst ch)
             \<and> (\<forall>t. map_of ch t = last_item (sanitize_keys ucd vs) t)
             \<and> length ch \<le> length vs
             \<and> (length ch < length vs \<longleftrightarrow> \<not> distinct (map (\<lambda>v. sanitize_filename ucd (fst v)) vs))"
    if "last_item (sanitize_keys ucd chs) k = Some vs" for k vs
  proof -
    have "map ?f chs = map (\<lambda>(a, b). (a, dict_of [] (sanitize_keys ucd b))) (sanitize_keys ucd chs)"
      by (simp add: sanitize_keys_def)
    then have "rev (map ?f chs)
        = map (\<lambda>(a, b). (a, dict_of [] (sanitize_keys ucd b))) (rev (sanitize_keys ucd chs))"
      by (simp only: rev_map)
    then have "map_of (rev (map ?f chs)) k
        = map_option (\<lambda>b. dict_of [] (sanitize_keys ucd b)) (map_of (rev (sanitize_keys ucd chs)) k)"
      by (simp only: map_of_map comp_def)
    with that have "map_of ?course k = Some (dict_of [] (sanitize_keys ucd vs))"
      by (simp add: dict_of_map_of last_item_def)
    moreover have "distinct (map fst (dict_of [] (sanitize_keys ucd vs)))"
      by (simp add: dict_of_distinct)
    moreover have "map_of (dict_of [] (sanitize_keys ucd vs)) t = last_item (sanitize_keys ucd vs) t" for t
      by (simp add: dict_of_map_of last_item_def)
    moreover have "length (dict_of [] (sanitize_keys ucd vs)) \<le> length vs"
      using dict_of_length_le [of "sanitize_keys ucd vs"] by (simp add: sanitize_keys_def)
    moreover have "length (dict_of [] (sanitize_keys ucd vs)) < length vs
        \<longleftrightarrow> \<not> distinct (map (\<lambda>v. sanitize_filename ucd (fst v)) vs)"
      using dict_of_length_less [of "sanitize_keys ucd vs"] by (simp add: sanitize_keys_def comp_def)
    ultimately show ?thesis by blast
  qed
  from run d k le less look show ?thesis by blast
qed

theorem get_course_last_wins_witness:
  "spec_course payload_chapter_clash =
     Some [(str ''A/B'', [(str ''x'', JInt 1), (str ''y'', JInt 2)]),
           (str ''A:B'', [(str ''z?'', JInt 3), (str ''z!'', JInt 4)])]
   \<and> last_item (sanitize_keys latin1_alnum
         [(str ''A/B'', [(str ''x'', JInt 1), (str ''y'', JInt 2)]),
          (str ''A:B'', [(str ''z?'', JInt 3), (str ''z!'', JInt 4)])]) (str ''A_B'')
       = Some [(str ''z?'', JInt 3), (str ''z!'', JInt 4)]
   \<and> get_course latin1_alnum payload_chapter_clash = ([], Some [(str ''A_B'', [(str ''z_'', JInt 4)])])"
proof -
  have h: "spec_course payload_chapter_clash =
     Some [(str ''A/B'', [(str ''x'', JInt 1), (str ''y'', JInt 2)]),
           (str ''A:B'', [(str ''z?'', JInt 3), (str ''z!'', JInt 4)])]"
    by (simp add: payload_chapter_clash_def eval_defs)
  from get_course_last_wins [OF h, of latin1_alnum] h show ?thesis
    by (simp add: payload_chapter_clash_def eval_defs last_item_def)
qed

section \<open>The loops of downloader\<close>

lemma list_index_nth:
  "distinct xs \<Longrightarrow> m < length xs \<Longrightarrow> list_index xs (xs ! m) = Some m"
proof (induction xs arbitrary: m)
  case Nil
  then show ?case by simp
next
  case (Cons x xs)
  then show ?case by (cases m) auto
qed

lemma map_of_nth:
  "distinct (map fst xs) \<Longrightarrow> m < length xs \<Longrightarrow> map_of xs (fst (xs ! m)) = Some (snd (xs ! m))"
  by (simp add: map_of_eq_Some_iff [of xs])

lemma videos_trace_Cons:
  "videos_trace ucd e token dir j (x # rest) n =
     download_video e n token (snd x) (video_stem ucd (Suc j) (fst x))
       (Join dir (video_stem ucd (Suc j) (fst x) @ str ''.%(ext)s''))
     @ videos_trace ucd e token dir (Suc j) rest (Suc n)"
  by (cases x) simp

lemma chapters_trace_Cons:
  "chapters_trace ucd e token root i (x # rest) n =
     MakeDirs (chapter_dir ucd root (Suc i) (fst x))
     # videos_trace ucd e token (chapter_dir ucd root (Suc i) (fst x)) 0 (snd x) n
     @ chapters_trace ucd e token root (Suc i) rest (n + length (snd x))"
  by (cases x) simp

lemma videos_loop:
  assumes "distinct (map fst ch)"
  shows "m \<le> length ch \<Longrightarrow>
    downloader_videos ucd e token dir ch (map fst (drop m ch)) n =
      (videos_trace ucd e token dir m (drop m ch) n, Inr (n + (length ch - m)))"
proof (induction "length ch - m" arbitrary: m n)
  case 0
  then show ?case by simp
next
  case (Suc k)
  then have m: "m < length ch" by simp
  then have d: "drop m ch = (fst (ch ! m), snd (ch ! m)) # drop (Suc m) ch"
    by (simp add: Cons_nth_drop_Suc)
  have i: "list_index (map fst ch) (fst (ch ! m)) = Some m"
    using list_index_nth [OF assms, of m] m by simp
  have l: "map_of ch (fst (ch ! m)) = Some (snd (ch ! m))"
    by (rule map_of_nth [OF assms m])
  have IH: "downloader_videos ucd e token dir ch (map fst (drop (Suc m) ch)) (Suc n) =
      (videos_trace ucd e token dir (Suc m) (drop (Suc m) ch) (Suc n), Inr (Suc n + (length ch - Suc m)))"
    using Suc.hyps(1) [of "Suc m" "Suc n"] Suc.hyps(2) m by simp
  show ?case
    using m by (subst (1 2) d) (simp add: i l IH videos_trace_Cons video_stem_def Let_def)
qed

lemma chapters_loop:
  assumes "distinct (map fst course)" and "\<forall>c \<in> set course. distinct (map fst (snd c))"
    and "\<forall>k < length course. \<not> makedirs_raises e (chapter_dir ucd root (Suc k) (fst (course ! k)))"
  shows "m \<le> length course \<Longrightarrow>
    downloader_chapters ucd e token root course (map fst (drop m course)) n =
      (chapters_trace ucd e token root m (drop m course) n,
       Inr (n + sum_list (map (\<lambda>c. length (snd c)) (drop m course))))"
proof (induction "length course - m" arbitrary: m n)
  case 0
  then show ?case by simp
next
  case (Suc k)
  then have m: "m < length course" by simp
  then have d: "drop m course = (fst (course ! m), snd (course ! m)) # drop (Suc m) course"
    by (simp add: Cons_nth_drop_Suc)
  have i: "list_index (map fst course) (fst (course ! m)) = Some m"
    using list_index_nth [OF assms(1), of m] m by simp
  have l: "map_of course (fst (course ! m)) = Some (snd (course ! m))"
    by (rule map_of_nth [OF assms(1) m])
  from assms(2) m have dv: "distinct (map fst (snd (course ! m)))" by simp
  from assms(3) m have mk: "\<not> makedirs_raises e
      (Join root (str_of_nat (Suc m) @ str ''. '' @ sanitize_filename ucd (fst (course ! m))))"
    by (simp add: chapter_dir_def)
  have v: "downloader_videos ucd e token dir (snd (course ! m)) (map fst (snd (course ! m))) n =
      (videos_trace ucd e token dir 0 (snd (course ! m)) n, Inr (n + length (snd (course ! m))))" for dir
    using videos_loop [OF dv, of 0 ucd e token dir n] by simp
  have IH: "downloader_chapters ucd e token root course (map fst (drop (Suc m) course)) n' =
      (chapters_trace ucd e token root (Suc m) (drop (Suc m) course) n',
       Inr (n' + sum_list (map (\<lambda>c. length (snd c)) (drop (Suc m) course))))" for n'
    using Suc.hyps(1) [of "Suc m" n'] Suc.hyps(2) m by simp
  show ?case
    using m by (subst (1 2 3) d) (simp add: i l v mk IH chapters_trace_Cons chapter_dir_def Let_def add.assoc)
qed

lemma dirs_creatable_nth:
  assumes "dirs_creatable ucd e root course" and "k < length course"
  shows "\<not> makedirs_raises e (chapter_dir ucd root (Suc k) (fst (course ! k)))"
proof -
  from assms(2) have "(k, course ! k) \<in> set (enumerate 0 course)"
    by (simp add: in_set_enumerate_eq)
  with assms(1) show ?thesis
    by (auto simp: dirs_creatable_def list_all_iff)
qed

lemma downloader_trace:
  assumes "is_dicts course" and "dirs_creatable ucd e (download_root args) course"
  shows "downloader ucd e course args token =
     (MakeDirs (download_root args) # chapters_trace ucd e token (download_root args) 0 course 0, Inr ())"
proof -
  from assms(1) have d: "distinct (map fst course)" "\<forall>c \<in> set course. distinct (map fst (snd c))"
    by (simp_all add: is_dicts_def list_all_iff)
  have mk: "\<forall>k < length course.
      \<not> makedirs_raises e (chapter_dir ucd (download_root args) (Suc k) (fst (course ! k)))"
    using dirs_creatable_nth [OF assms(2)] by blast
  from assms(2) have root: "\<not> makedirs_raises e (download_root args)"
    by (simp add: dirs_creatable_def)
  show ?thesis
    using chapters_loop [OF d mk, of 0 token 0] root by (simp add: downloader_def)
qed

lemma made_dirs_simps [simp]:
  "made_dirs [] = []" "made_dirs (ev # t) = made_dir ev @ made_dirs t"
  "made_dirs (t @ t') = made_dirs t @ made_dirs t'"
  by (simp_all add: made_dirs_def)

lemma posted_videos_simps [simp]:
  "posted_videos [] = []" "posted_videos (ev # t) = posted_video ev @ posted_videos t"
  "posted_videos (t @ t') = posted_videos t @ posted_videos t'"
  by (simp_all add: posted_videos_def)

lemma logged_files_simps [simp]:
  "logged_files [] = []" "logged_files (ev # t) = logged_file ev @ logged_files t"
  "logged_files (t @ t') = logged_files t @ logged_files t'"
  by (simp_all add: logged_files_def)

lemma ydl_downloads_simps [simp]:
  "ydl_downloads [] = []" "ydl_downloads (ev # t) = ydl_download ev @ ydl_downloads t"
  "ydl_downloads (t @ t') = ydl_downloads t @ ydl_downloads t'"
  by (simp_all add: ydl_downloads_def)

lemma field_getitem: "field v k = (case getitem v k of Inl err \<Rightarrow> None | Inr x \<Rightarrow> Some x)"
  by (cases v) (simp_all split: option.splits)

lemma resolved_token_video_token:
  "resolved_token (Response body) = (case video_token body of Inl err \<Rightarrow> None | Inr vt \<Rightarrow> Some vt)"
  by (simp add: video_token_def field_getitem split: sum.splits)

lemma download_video_downloads:
  "ydl_downloads (download_video e n token vid f p) =
     (case resolved_token (video_api e n token vid) of None \<Rightarrow> [] | Some vt \<Rightarrow> [(vt, p)])"
proof (cases "video_api e n token vid")
  case (Response body)
  then show ?thesis
    by (simp add: download_video_def resolved_token_video_token del: resolved_token.simps
          split: sum.splits ydl_result.splits)
qed (simp_all add: download_video_def)

lemma download_video_events [simp]:
  "made_dirs (download_video e n token vid f p) = []"
  "posted_videos (download_video e n token vid f p) = [vid]"
  "logged_files (download_video e n token vid f p) = [f]"
  by (simp_all add: download_video_def split: response.splits sum.splits ydl_result.splits)

lemma videos_trace_events:
  "made_dirs (videos_trace ucd e token dir j ch n) = []"
  "posted_videos (videos_trace ucd e token dir j ch n) = map snd ch"
  "logged_files (videos_trace ucd e token dir j ch n) =
     map (\<lambda>(k, v). video_stem ucd (Suc k) (fst v)) (enumerate j ch)"
  by (induction ch arbitrary: j n) (simp_all add: videos_trace_Cons)

lemma videos_trace_downloads:
  "ydl_downloads (videos_trace ucd e token dir j ch n) = video_downloads ucd e token dir j ch n"
proof (induction ch arbitrary: j n)
  case Nil
  then show ?case by simp
next
  case (Cons x ch)
  obtain title vid where x: "x = (title, vid)" by (cases x)
  show ?case
    by (simp add: x Cons.IH download_video_downloads)
qed

lemma chapters_trace_downloads:
  "ydl_downloads (chapters_trace ucd e token root i course n) =
     course_downloads ucd e token root i course n"
proof (induction course arbitrary: i n)
  case Nil
  then show ?case by simp
next
  case (Cons x course)
  obtain title ch where x: "x = (title, ch)" by (cases x)
  show ?case
    by (simp add: x Cons.IH videos_trace_downloads)
qed

lemma chapters_trace_events:
  "made_dirs (chapters_trace ucd e token root i course n) =
     map (\<lambda>(k, c). chapter_dir ucd root (Suc k) (fst c)) (enumerate i course)"
  "posted_videos (chapters_trace ucd e token root i course n) = concat (map (\<lambda>c. map snd (snd c)) course)"
  "logged_files (chapters_trace ucd e token root i course n) =
     concat (map (\<lambda>c. map (\<lambda>(k, v). video_stem ucd (Suc k) (fst v)) (enumerate 0 (snd c))) course)"
  by (induction course arbitrary: i n) (simp_all add: chapters_trace_Cons videos_trace_events)

lemma update_set: "x \<in> set (AList.update k v al) \<Longrightarrow> x = (k, v) \<or> x \<in> set al"
  by (induction al) (auto split: if_splits)

lemma get_course_videos_distinct:
  "get_course_videos ucd items ch = Inr ch' \<Longrightarrow> distinct (map fst ch) \<Longrightarrow> distinct (map fst ch')"
proof (induction items arbitrary: ch)
  case Nil
  then show ?case by simp
next
  case (Cons item rest)
  then show ?case
    by (auto simp: AList.distinct_update split: sum.splits if_splits)
qed

section \<open>What get_course returns is a dict of dicts\<close>

lemma is_dicts_update:
  "is_dicts course \<Longrightarrow> distinct (map fst ch) \<Longrightarrow> is_dicts (AList.update k ch course)"
  by (auto simp: is_dicts_def list_all_iff AList.distinct_update dest: update_set)

lemma get_course_chapters_dicts:
  "get_course_chapters ucd cs course = Inr course' \<Longrightarrow> is_dicts course \<Longrightarrow> is_dicts course'"
proof (induction cs arbitrary: course)
  case Nil
  then show ?case by simp
next
  case (Cons c rest)
  then show ?case
    by (auto simp: AList.update_last is_dicts_update dest!: get_course_videos_distinct
             split: sum.splits)
qed

lemma get_course_dicts:
  assumes "get_course ucd j = (t, Some course)"
  shows "is_dicts course"
proof -
  from assms have "get_course_try ucd j = Inr course"
    by (auto simp: get_course_def split: sum.splits pyerr.splits)
  then obtain chs where "get_course_chapters ucd chs [] = Inr course"
    by (auto simp: get_course_try_def split: sum.splits)
  moreover have "is_dicts []" by (simp add: is_dicts_def)
  ultimately show ?thesis by (rule get_course_chapters_dicts)
qed

section \<open>The keys of a parsed course are sanitised\<close>

lemma sanitize_fixedI:
  "(\<And>c. c \<in> set s \<Longrightarrow> isalnum ucd c \<or> c \<in> {32, 46, 95}) \<Longrightarrow> sanitize_filename ucd s = s"
  unfolding sanitize_filename_def by (rule map_idI) auto

lemma sanitize_items_kept:
  "sanitize_items ucd cs = Inr r \<Longrightarrow> c \<in> set r \<Longrightarrow> isalnum ucd c \<or> c \<in> {32, 46, 95}"
proof (induction ucd cs arbitrary: r rule: sanitize_items.induct)
  case (1 ucd)
  then show ?case by simp
next
  case (2 ucd e cs)
  then show ?case
    by (auto simp: str_isalnum_def list_all_iff isalnum_def split: sum.splits if_splits)
qed simp_all

lemma sanitize_dyn_fixed:
  assumes "sanitize_filename_dyn ucd v = Inr k"
  shows "sanitize_filename ucd k = k"
proof (cases v)
  case (JStr s)
  with assms show ?thesis
    by (auto simp: sanitize_filename_dyn_def sanitize_filename_def isalnum_def)
next
  case (JArr xs)
  with assms have "sanitize_items ucd xs = Inr k"
    by (simp add: sanitize_filename_dyn_def)
  then show ?thesis
    by (intro sanitize_fixedI) (rule sanitize_items_kept)
next
  case (JObj kvs)
  with assms have "sanitize_items ucd (map JStr (dict_keys kvs)) = Inr k"
    by (simp add: sanitize_filename_dyn_def)
  then show ?thesis
    by (intro sanitize_fixedI) (rule sanitize_items_kept)
qed (use assms in \<open>simp_all add: sanitize_filename_dyn_def\<close>)

lemma keys_sanitized_update:
  "keys_sanitized ucd d \<Longrightarrow> sanitize_filename ucd k = k \<Longrightarrow> keys_sanitized ucd (AList.update k v d)"
  by (auto simp: keys_sanitized_def list_all_iff dest: update_set)

lemma get_course_videos_sanitized:
  "get_course_videos ucd items ch = Inr ch' \<Longrightarrow> keys_sanitized ucd ch \<Longrightarrow> keys_sanitized ucd ch'"
proof (induction items arbitrary: ch)
  case Nil
  then show ?case by simp
next
  case (Cons item rest)
  then show ?case
    by (auto simp: keys_sanitized_update dest!: sanitize_dyn_fixed split: sum.splits if_splits)
qed

lemma get_course_chapters_sanitized:
  "get_course_chapters ucd cs course = Inr course' \<Longrightarrow>
   keys_sanitized ucd course \<Longrightarrow> list_all (\<lambda>c. keys_sanitized ucd (snd c)) course \<Longrightarrow>
   keys_sanitized ucd course' \<and> list_all (\<lambda>c. keys_sanitized ucd (snd c)) course'"
proof (induction cs arbitrary: course)
  case Nil
  then show ?case by simp
next
  case (Cons c rest)
  from Cons.prems(1) obtain title k contents videos ch where
    k: "sanitize_filename_dyn ucd title = Inr k"
    and ch: "get_course_videos ucd videos [] = Inr ch"
    and rest: "get_course_chapters ucd rest (AList.update k ch course) = Inr course'"
    by (auto simp: AList.update_last split: sum.splits)
  have "keys_sanitized ucd ([] :: chapter_dict)" by (simp add: keys_sanitized_def)
  with ch have 1: "keys_sanitized ucd ch" by (rule get_course_videos_sanitized)
  have 2: "keys_sanitized ucd (AList.update k ch course)"
    using Cons.prems(2) sanitize_dyn_fixed [OF k] by (rule keys_sanitized_update)
  have 3: "list_all (\<lambda>c. keys_sanitized ucd (snd c)) (AList.update k ch course)"
    using Cons.prems(3) 1 by (auto simp: list_all_iff dest: update_set)
  from rest 2 3 show ?case by (rule Cons.IH)
qed

lemma get_course_sanitized:
  assumes "get_course ucd j = (t, Some course)"
  shows "keys_sanitized ucd course \<and> list_all (\<lambda>c. keys_sanitized ucd (snd c)) course"
proof -
  from assms have "get_course_try ucd j = Inr course"
    by (auto simp: get_course_def split: sum.splits pyerr.splits)
  then obtain chs where "get_course_chapters ucd chs [] = Inr course"
    by (auto simp: get_course_try_def split: sum.splits)
  then show ?thesis
    by (rule get_course_chapters_sanitized) (simp_all add: keys_sanitized_def)
qed

text \<open>
  Claim C9. \<open>sanitize_filename\<close> is idempotent: sanitising a sanitised string changes
  nothing. Every key of the course and of its chapters that \<open>get_course\<close> returns, on any
  payload, is such a string, so the second sanitising in \<open>downloader\<close> leaves the keys
  as they are.
\<close>

theorem sanitize_filename_idempotent:
  "sanitize_filename ucd (sanitize_filename ucd s) = sanitize_filename ucd s
   \<and> (get_course ucd j = (t, Some course) \<longrightarrow>
        (\<forall>c \<in> set course. sanitize_filename ucd (fst c) = fst c
           \<and> (\<forall>v \<in> set (snd c). sanitize_filename ucd (fst v) = fst v)))"
proof (intro conjI impI)
  show "sanitize_filename ucd (sanitize_filename ucd s) = sanitize_filename ucd s"
    by (simp add: sanitize_filename_def isalnum_def)
next
  assume "get_course ucd j = (t, Some course)"
  then have "keys_sanitized ucd course \<and> list_all (\<lambda>c. keys_sanitized ucd (snd c)) course"
    by (rule get_course_sanitized)
  then show "\<forall>c \<in> set course. sanitize_filename ucd (fst c) = fst c
           \<and> (\<forall>v \<in> set (snd c). sanitize_filename ucd (fst v) = fst v)"
    by (simp add: keys_sanitized_def list_all_iff)
qed

theorem sanitize_filename_idempotent_witness:
  "get_course latin1_alnum payload_3_1 =
     ([], Some [(str ''Intro'', [(str ''Welcome'', JInt 11), (str ''Set_up'', JInt 13), (str ''Tour'', JInt 14)]),
                (str ''Basics'', [(str ''First steps'', JInt 21)])])
   \<and> sanitize_filename latin1_alnum (str ''Set_up'') = str ''Set_up''
   \<and> sanitize_filename latin1_alnum (str ''First steps'') = str ''First steps''
   \<and> sanitize_filename latin1_alnum (sanitize_filename latin1_alnum (str ''Set-up'')) = str ''Set_up''"
proof -
  have c: "get_course latin1_alnum payload_3_1 =
     ([], Some [(str ''Intro'', [(str ''Welcome'', JInt 11), (str ''Set_up'', JInt 13), (str ''Tour'', JInt 14)]),
                (str ''Basics'', [(str ''First steps'', JInt 21)])])"
    by (simp add: payload_3_1_def eval_defs)
  from sanitize_filename_idempotent [of latin1_alnum "str ''Set-up''" payload_3_1 "[]"
      "[(str ''Intro'', [(str ''Welcome'', JInt 11), (str ''Set_up'', JInt 13), (str ''Tour'', JInt 14)]),
        (str ''Basics'', [(str ''First steps'', JInt 21)])]"] c
  show ?thesis
    by (simp add: str_def sanitize_filename_def isalnum_def)
qed

section \<open>The directories and file names of downloader\<close>

lemma video_downloads_all:
  "\<forall>n vid. resolved_token (video_api e n token vid) \<noteq> None \<Longrightarrow>
   map snd (video_downloads ucd e token dir j ch n) =
     map (\<lambda>(k, v). Join dir (video_stem ucd (Suc k) (fst v) @ str ''.%(ext)s'')) (enumerate j ch)"
proof (induction ch arbitrary: j n)
  case Nil
  then show ?case by simp
next
  case (Cons x ch)
  obtain title vid where x: "x = (title, vid)" by (cases x)
  from Cons.prems obtain vt where "resolved_token (video_api e n token vid) = Some vt"
    by auto
  with Cons show ?case by (simp add: x)
qed

lemma course_downloads_all:
  "\<forall>n vid. resolved_token (video_api e n token vid) \<noteq> None \<Longrightarrow>
   map snd (course_downloads ucd e token root i course n) =
     concat (map (\<lambda>(k, c). map (\<lambda>(j, v). Join (chapter_dir ucd root (Suc k) (fst c))
                                          (video_stem ucd (Suc j) (fst v) @ str ''.%(ext)s''))
                              (enumerate 0 (snd c)))
                 (enumerate i course))"
proof (induction course arbitrary: i n)
  case Nil
  then show ?case by simp
next
  case (Cons x course)
  obtain title ch where x: "x = (title, ch)" by (cases x)
  from Cons show ?case by (simp add: x video_downloads_all)
qed

text \<open>
  Claim C7, as the code has it. For every course (a dict of dicts) such that no
  \<open>os.makedirs\<close> raises, \<open>downloader\<close> returns normally after creating the destination
  root, which is the third argument when there is one and \<open>submeta-downloads\<close> otherwise,
  and under it one directory per chapter in course order, named by the 1-based position,
  a dot, a space and the sanitised title. For each video, in order, it logs one line under
  the file name stem made the same way from the 1-based position of the video in its
  chapter, and for each video whose request resolved to a stream token it hands the tool
  that token with the output template made of the chapter's directory and the stem; when
  every request resolves, these are the templates of all videos in order.
\<close>

theorem downloader_layout:
  assumes "is_dicts course" and "dirs_creatable ucd e (download_root args) course"
  shows "download_root args = Root (if length args = 3 then args ! 2 else str ''submeta-downloads'')
       \<and> snd (downloader ucd e course args token) = Inr ()
       \<and> made_dirs (fst (downloader ucd e course args token)) =
           download_root args
           # map (\<lambda>(i, c). Join (download_root args)
                             (str_of_nat (Suc i) @ str ''. '' @ sanitize_filename ucd (fst c)))
               (enumerate 0 course)
       \<and> logged_files (fst (downloader ucd e course args token)) =
           concat (map (\<lambda>c. map (\<lambda>(j, v). str_of_nat (Suc j) @ str ''. '' @ sanitize_filename ucd (fst v))
                                 (enumerate 0 (snd c))) course)
       \<and> ydl_downloads (fst (downloader ucd e course args token)) =
           course_downloads ucd e token (download_root args) 0 course 0
       \<and> ((\<forall>n vid. resolved_token (video_api e n token vid) \<noteq> None) \<longrightarrow>
           map snd (ydl_downloads (fst (downloader ucd e course args token))) =
             concat (map (\<lambda>(i, c).
                        map (\<lambda>(j, v).
                               Join (Join (download_root args)
                                       (str_of_nat (Suc i) @ str ''. '' @ sanitize_filename ucd (fst c)))
                                    (str_of_nat (Suc j) @ str ''. '' @ sanitize_filename ucd (fst v)
                                     @ str ''.%(ext)s''))
                            (enumerate 0 (snd c)))
                     (enumerate 0 course)))"
proof -
  have run: "downloader ucd e course args token =
     (MakeDirs (download_root args) # chapters_trace ucd e token (download_root args) 0 course 0, Inr ())"
    by (rule downloader_trace [OF assms])
  have all: "map snd (course_downloads ucd e token (download_root args) 0 course 0) =
             concat (map (\<lambda>(i, c).
                        map (\<lambda>(j, v).
                               Join (Join (download_root args)
                                       (str_of_nat (Suc i) @ str ''. '' @ sanitize_filename ucd (fst c)))
                                    (str_of_nat (Suc j) @ str ''. '' @ sanitize_filename ucd (fst v)
                                     @ str ''.%(ext)s''))
                            (enumerate 0 (snd c)))
                     (enumerate 0 course))"
    if "\<forall>n vid. resolved_token (video_api e n token vid) \<noteq> None"
    using course_downloads_all [OF that, of ucd "download_root args" 0 course 0]
    by (simp add: chapter_dir_def video_stem_def)
  show ?thesis
    using all
    by (simp add: run chapters_trace_events chapters_trace_downloads chapter_dir_def
          video_stem_def download_root_def)
qed

lemmas run_defs = main_def script_def get_json_def get_token_def login_token_def downloader_def
  download_root_def download_video_def video_token_def env_of_def args_default_def
  login_ok_body_def login_body_without_token_def video_ok_body_def str_of_nat.simps
  makedirs_raises_def

lemma course_3_1_dicts: "is_dicts course_3_1"
  by (simp add: is_dicts_def course_3_1_def str_def)

lemma env_503_creatable: "dirs_creatable latin1_alnum env_503 (download_root args_default) course_3_1"
  by (simp add: dirs_creatable_def course_3_1_def env_503_def run_defs enumerate_eq_zip
        chapter_dir_def str_def)

theorem downloader_layout_witness:
  "is_dicts course_3_1
   \<and> dirs_creatable latin1_alnum env_503 (download_root args_default) course_3_1
   \<and> made_dirs (fst (downloader latin1_alnum env_503 course_3_1 args_default (JStr (str ''bearer'')))) =
       [Root (str ''submeta-downloads''),
        Join (Root (str ''submeta-downloads'')) (str ''1. Intro''),
        Join (Root (str ''submeta-downloads'')) (str ''2. Basics'')]
   \<and> logged_files (fst (downloader latin1_alnum env_503 course_3_1 args_default (JStr (str ''bearer'')))) =
       [str ''1. Welcome'', str ''2. Set_up'', str ''3. Tour'', str ''1. First steps'']
   \<and> ydl_downloads (fst (downloader latin1_alnum env_503 course_3_1 args_default (JStr (str ''bearer'')))) =
       [(JStr (str ''stream''),
         Join (Join (Root (str ''submeta-downloads'')) (str ''1. Intro'')) (str ''1. Welcome.%(ext)s'')),
        (JStr (str ''stream''),
         Join (Join (Root (str ''submeta-downloads'')) (str ''1. Intro'')) (str ''3. Tour.%(ext)s'')),
        (JStr (str ''stream''),
         Join (Join (Root (str ''submeta-downloads'')) (str ''2. Basics'')) (str ''1. First steps.%(ext)s''))]"
proof -
  note d = course_3_1_dicts and c = env_503_creatable
  from downloader_layout [OF d c, of "JStr (str ''bearer'')"] d c
  show ?thesis
    by (simp add: course_3_1_def env_503_def enumerate_eq_zip upt_rec run_defs
          chapter_dir_def video_stem_def str_def sanitize_filename_def isalnum_def)
qed

text \<open>
  With an empty download path the claim fails: \<open>os.makedirs\<close> raises for the root, outside
  every \<open>try\<close>; no directory is made and the process ends with status 1.
\<close>

theorem downloader_empty_path_raises:
  "download_root args_empty_path = Root []
   \<and> downloader latin1_alnum env_503 course_3_1 args_empty_path (JStr (str ''bearer'')) = ([], Inl OSError)
   \<and> made_dirs (fst (downloader latin1_alnum env_503 course_3_1 args_empty_path (JStr (str ''bearer'')))) = []
   \<and> snd (main latin1_alnum env_503 args_empty_path) = Inl OSError
   \<and> snd (script latin1_alnum env_503 args_empty_path) = 1"
  by (simp add: args_empty_path_def env_503_def payload_3_1_def run_defs eval_defs)

section \<open>Runs of main\<close>

text \<open>
  Claim C5, as the code has it. Once the page, the course and the login have succeeded
  and as long as no \<open>os.makedirs\<close> raises, whatever the requests for the videos and the
  downloads answer, \<open>main\<close> sends one request for every video of the course, in order,
  hands the tool every video whose request resolved, logs one line for each video, prints
  \<open>Download complete!\<close> and returns normally, and the process ends with status 0. In the
  witness the request for the second of the three videos of the first chapter fails.
\<close>

theorem main_continues_after_video_failures:
  assumes "length args = 2 \<or> length args = 3"
    and "get_json e (args ! 1) = (t1, json_data)" and "truthy json_data"
    and "get_course ucd json_data = (t2, Some course)" and "course \<noteq> []"
    and "get_token e (username_input e) (password_input e) = (t3, token)" and "truthy token"
    and "dirs_creatable ucd e (download_root args) course"
  shows "\<exists>t4. main ucd e args =
           (t1 @ t2 @ [Prompt ''Enter username: '', Prompt ''Enter password: ''] @ t3 @ t4
            @ [Print ''Download complete!''], Inr None)
         \<and> posted_videos t4 = concat (map (\<lambda>c. map snd (snd c)) course)
         \<and> ydl_downloads t4 = course_downloads ucd e token (download_root args) 0 course 0
         \<and> length (logged_files t4) = length (posted_videos t4)
         \<and> snd (script ucd e args) = 0"
proof -
  let ?t4 = "MakeDirs (download_root args) # chapters_trace ucd e token (download_root args) 0 course 0"
  have "is_dicts course"
    by (rule get_course_dicts [OF assms(4)])
  then have dl: "downloader ucd e course args token = (?t4, Inr ())"
    using assms(8) by (rule downloader_trace)
  have run: "main ucd e args =
           (t1 @ t2 @ [Prompt ''Enter username: '', Prompt ''Enter password: ''] @ t3 @ ?t4
            @ [Print ''Download complete!''], Inr None)"
    using assms(1-7) by (auto simp: main_def dl)
  have posts: "posted_videos ?t4 = concat (map (\<lambda>c. map snd (snd c)) course)"
    by (simp add: chapters_trace_events)
  have dls: "ydl_downloads ?t4 = course_downloads ucd e token (download_root args) 0 course 0"
    by (simp add: chapters_trace_downloads)
  have logs: "length (logged_files ?t4) = length (posted_videos ?t4)"
    by (simp add: chapters_trace_events length_concat comp_def enumerate_eq_zip)
  have st: "snd (script ucd e args) = 0"
    by (simp add: script_def run)
  from run posts dls logs st show ?thesis
    by (intro exI [of _ ?t4] conjI) assumption+
qed

theorem main_continues_after_video_failures_witness:
  "video_api env_503 1 (JStr (str ''bearer'')) (JInt 13) = NetworkError
   \<and> dirs_creatable latin1_alnum env_503 (download_root args_default) course_3_1
   \<and> posted_videos (fst (main latin1_alnum env_503 args_default)) = [JInt 11, JInt 13, JInt 14, JInt 21]
   \<and> ydl_downloads (fst (main latin1_alnum env_503 args_default)) =
       [(JStr (str ''stream''),
         Join (Join (Root (str ''submeta-downloads'')) (str ''1. Intro'')) (str ''1. Welcome.%(ext)s'')),
        (JStr (str ''stream''),
         Join (Join (Root (str ''submeta-downloads'')) (str ''1. Intro'')) (str ''3. Tour.%(ext)s'')),
        (JStr (str ''stream''),
         Join (Join (Root (str ''submeta-downloads'')) (str ''2. Basics'')) (str ''1. First steps.%(ext)s''))]
   \<and> logged_files (fst (main latin1_alnum env_503 args_default)) =
       [str ''1. Welcome'', str ''2. Set_up'', str ''3. Tour'', str ''1. First steps'']
   \<and> last (fst (main latin1_alnum env_503 args_default)) = Print ''Download complete!''
   \<and> snd (main latin1_alnum env_503 args_default) = Inr None
   \<and> snd (script latin1_alnum env_503 args_default) = 0"
proof -
  have a: "length args_default = 2 \<or> length args_default = 3"
    by (simp add: args_default_def)
  have j: "get_json env_503 (args_default ! 1) = ([HttpGet (str ''https://submeta.io/course'')], payload_3_1)"
    by (simp add: env_503_def run_defs)
  have tj: "truthy payload_3_1"
    by (simp add: payload_3_1_def page_payload_def)
  have c: "get_course latin1_alnum payload_3_1 = ([], Some course_3_1)"
    by (simp add: payload_3_1_def course_3_1_def eval_defs)
  have ne: "course_3_1 \<noteq> []" by (simp add: course_3_1_def)
  have t: "get_token env_503 (username_input env_503) (password_input env_503) =
      ([LoginPost (str ''user'') (str ''secret''), LogInfo LoginSuccessful,
        Print ''Login successful! Token obtained''], JStr (str ''bearer''))"
    by (simp add: env_503_def run_defs str_def)
  have tt: "truthy (JStr (str ''bearer''))" by (simp add: str_def)
  note mk = env_503_creatable
  from main_continues_after_video_failures [OF a j tj c ne t tt mk]
  obtain t4 where run: "main latin1_alnum env_503 args_default =
           ([HttpGet (str ''https://submeta.io/course'')] @ []
            @ [Prompt ''Enter username: '', Prompt ''Enter password: '']
            @ [LoginPost (str ''user'') (str ''secret''), LogInfo LoginSuccessful,
               Print ''Login successful! Token obtained''] @ t4
            @ [Print ''Download complete!''], Inr None)"
    and posts: "posted_videos t4 = concat (map (\<lambda>c. map snd (snd c)) course_3_1)"
    and ex: "snd (script latin1_alnum env_503 args_default) = 0"
    by blast
  have dl: "downloader latin1_alnum env_503 course_3_1 args_default (JStr (str ''bearer'')) =
     (MakeDirs (download_root args_default)
      # chapters_trace latin1_alnum env_503 (JStr (str ''bearer'')) (download_root args_default) 0 course_3_1 0,
      Inr ())"
    by (rule downloader_trace [OF course_3_1_dicts mk])
  have tr: "fst (main latin1_alnum env_503 args_default) =
       [HttpGet (str ''https://submeta.io/course''),
        Prompt ''Enter username: '', Prompt ''Enter password: '',
        LoginPost (str ''user'') (str ''secret''), LogInfo LoginSuccessful,
        Print ''Login successful! Token obtained'', MakeDirs (download_root args_default)]
       @ chapters_trace latin1_alnum env_503 (JStr (str ''bearer'')) (download_root args_default) 0 course_3_1 0
       @ [Print ''Download complete!'']"
    using a j tj c ne t tt by (simp add: main_def dl)
  have files: "logged_files (fst (main latin1_alnum env_503 args_default)) =
       [str ''1. Welcome'', str ''2. Set_up'', str ''3. Tour'', str ''1. First steps'']"
    unfolding tr
    by (simp add: chapters_trace_events video_stem_def course_3_1_def
        enumerate_eq_zip upt_rec str_of_nat.simps str_def sanitize_filename_def isalnum_def)
  have dls: "ydl_downloads (fst (main latin1_alnum env_503 args_default)) =
       [(JStr (str ''stream''),
         Join (Join (Root (str ''submeta-downloads'')) (str ''1. Intro'')) (str ''1. Welcome.%(ext)s'')),
        (JStr (str ''stream''),
         Join (Join (Root (str ''submeta-downloads'')) (str ''1. Intro'')) (str ''3. Tour.%(ext)s'')),
        (JStr (str ''stream''),
         Join (Join (Root (str ''submeta-downloads'')) (str ''2. Basics'')) (str ''1. First steps.%(ext)s''))]"
    unfolding tr
    by (simp add: chapters_trace_downloads course_3_1_def env_503_def run_defs chapter_dir_def
        video_stem_def str_def sanitize_filename_def isalnum_def)
  have v: "video_api env_503 1 (JStr (str ''bearer'')) (JInt 13) = NetworkError"
    by (simp add: env_503_def env_of_def)
  from run posts ex files dls v mk show ?thesis
    by (simp add: course_3_1_def)
qed

text \<open>
  Without the condition on \<open>os.makedirs\<close> the claim fails: when the directory of the
  second chapter cannot be created, the run ends there with the exception; the video of
  that chapter is never requested, \<open>Download complete!\<close> is not printed and the status
  is 1.
\<close>

theorem makedirs_failure_ends_the_run:
  "os_error env_503_no_dir (Join (Root (str ''submeta-downloads'')) (str ''2. Basics''))
   \<and> video_api env_503_no_dir 1 (JStr (str ''bearer'')) (JInt 13) = NetworkError
   \<and> get_course latin1_alnum payload_3_1 = ([], Some course_3_1)
   \<and> posted_videos (fst (main latin1_alnum env_503_no_dir args_default)) = [JInt 11, JInt 13, JInt 14]
   \<and> Print ''Download complete!'' \<notin> set (fst (main latin1_alnum env_503_no_dir args_default))
   \<and> snd (main latin1_alnum env_503_no_dir args_default) = Inl OSError
   \<and> snd (script latin1_alnum env_503_no_dir args_default) = 1"
  by (simp add: env_503_no_dir_def env_503_def payload_3_1_def course_3_1_def run_defs eval_defs
        Let_def)

text \<open>
  Claim C8. When the fetched page has no element with \<open>type="application/json"\<close>, \<open>main\<close>
  logs that, prints the failure message and returns \<open>-1\<close>; nothing else happens: no
  prompt, no login, no directory, no download.
\<close>

theorem missing_json_element_is_fatal:
  assumes "length args = 2 \<or> length args = 3"
    and "page e (args ! 1) = Page None"
  shows "main ucd e args =
     ([HttpGet (args ! 1), LogError (NoJsonData (args ! 1)),
       Print ''Failed to retrieve JSON data. Check the URL or logs for more information.''],
      Inr (Some (- 1)))"
  using assms by (auto simp: main_def get_json_def)

theorem missing_json_element_is_fatal_witness:
  "page (env_of (Page None) (Response login_ok_body) (\<lambda>n. Response video_ok_body)) (args_default ! 1)
     = Page None
   \<and> main latin1_alnum (env_of (Page None) (Response login_ok_body) (\<lambda>n. Response video_ok_body))
       args_default =
     ([HttpGet (str ''https://submeta.io/course''),
       LogError (NoJsonData (str ''https://submeta.io/course'')),
       Print ''Failed to retrieve JSON data. Check the URL or logs for more information.''],
      Inr (Some (- 1)))"
proof -
  let ?e = "env_of (Page None) (Response login_ok_body) (\<lambda>n. Response video_ok_body)"
  have a: "length args_default = 2 \<or> length args_default = 3"
    by (simp add: args_default_def)
  have p: "page ?e (args_default ! 1) = Page None"
    by (simp add: env_of_def)
  from missing_json_element_is_fatal [OF a p, of latin1_alnum] p show ?thesis
    by (simp add: args_default_def)
qed

text \<open>
  Claim C1, evaluated. With one argument \<open>main\<close> prints the usage line and returns \<open>-1\<close>,
  and so it does, with the message of the step that failed, when the page cannot be
  fetched and when the payload lacks the expected keys; the script drops the value and
  the process ends with status 0.
\<close>

theorem failed_run_exits_with_status_zero:
  "main ucd e [prog] =
     ([Print ''usage: submeta-dl.py <URL> <download path(optional)>''], Inr (Some (- 1)))
   \<and> script ucd e [prog] = ([Print ''usage: submeta-dl.py <URL> <download path(optional)>''], 0)
   \<and> main ucd (e\<lparr>page := \<lambda>u. PageNetworkError\<rparr>) [prog, url] =
       ([HttpGet url, LogError (NetworkErrorJson url),
         Print ''Failed to retrieve JSON data. Check the URL or logs for more information.''],
        Inr (Some (- 1)))
   \<and> snd (script ucd (e\<lparr>page := \<lambda>u. PageNetworkError\<rparr>) [prog, url]) = 0
   \<and> main ucd (e\<lparr>page := \<lambda>u. Page (Some [Some (JObj [(str ''props'', JObj [])])])\<rparr>) [prog, url] =
       ([HttpGet url, LogError KeyErrorCourse,
         Print ''Failed to parse course data. Check logs for more information.''],
        Inr (Some (- 1)))
   \<and> snd (script ucd (e\<lparr>page := \<lambda>u. Page (Some [Some (JObj [(str ''props'', JObj [])])])\<rparr>)
          [prog, url]) = 0"
  by (simp add: main_def script_def get_json_def get_course_def get_course_try_def str_def)

text \<open>
  Claim C4, evaluated. On a login response without a \<open>token\<close> field \<open>get_token\<close> logs the
  response and returns \<open>None\<close>; \<open>main\<close> prints the failure message and returns \<open>-1\<close>
  with no directory made and no video requested; the process ends with status 0.
\<close>

theorem missing_token_exits_with_status_zero:
  "get_token (e\<lparr>login := \<lambda>u p. Response login_body_without_token\<rparr>) username password =
     ([LoginPost username password, LogError (LoginFailed login_body_without_token)], JNull)
   \<and> main ucd (e\<lparr>page := \<lambda>u. Page (Some [Some payload_3_1]),
                  login := \<lambda>u p. Response login_body_without_token\<rparr>) [prog, url] =
       ([HttpGet url, Prompt ''Enter username: '', Prompt ''Enter password: '',
         LoginPost (username_input e) (password_input e),
         LogError (LoginFailed login_body_without_token),
         Print ''Failed to login. Check credentials or logs for more information.''],
        Inr (Some (- 1)))
   \<and> snd (script ucd (e\<lparr>page := \<lambda>u. Page (Some [Some payload_3_1]),
                  login := \<lambda>u p. Response login_body_without_token\<rparr>) [prog, url]) = 0"
  by (simp add: run_defs eval_defs payload_3_1_def)

lemma chapters_trace_segments:
  "chapters_trace ucd e token root i course n =
     concat (map (\<lambda>(p, seg). MakeDirs p # seg)
       (zip (map (\<lambda>(k, c). chapter_dir ucd root (Suc k) (fst c)) (enumerate i course))
            (chapter_segments ucd e token root i course n)))"
proof (induction course arbitrary: i n)
  case Nil
  then show ?case by simp
next
  case (Cons x course)
  obtain title ch where x: "x = (title, ch)" by (cases x)
  show ?case by (simp add: x Cons.IH)
qed

lemma chapter_segments_videos:
  "list_all2 (\<lambda>seg c. posted_videos seg = map snd (snd c) \<and> made_dirs seg = []
                      \<and> (snd c = [] \<longrightarrow> seg = []))
     (chapter_segments ucd e token root i course n) course"
proof (induction course arbitrary: i n)
  case Nil
  then show ?case by simp
next
  case (Cons x course)
  obtain title ch where x: "x = (title, ch)" by (cases x)
  show ?case by (auto simp: x Cons.IH videos_trace_events)
qed

text \<open>
  Claim C2, as the code has it by design. For a course with at least one chapter, once
  the page and the login have succeeded and as long as no \<open>os.makedirs\<close> raises, \<open>main\<close>
  creates the root and then, chapter by chapter, the directory of the chapter followed by
  the events of its videos: the requests for exactly the videos of that chapter, and
  nothing at all for a chapter without videos. Then it prints \<open>Download complete!\<close> and
  returns normally.
\<close>

theorem chapters_without_videos_are_valid:
  assumes "length args = 2 \<or> length args = 3"
    and "get_json e (args ! 1) = (t1, json_data)" and "truthy json_data"
    and "get_course ucd json_data = (t2, Some course)" and "course \<noteq> []"
    and "get_token e (username_input e) (password_input e) = (t3, token)" and "truthy token"
    and "dirs_creatable ucd e (download_root args) course"
  shows "\<exists>segs. main ucd e args =
           (t1 @ t2 @ [Prompt ''Enter username: '', Prompt ''Enter password: ''] @ t3
            @ MakeDirs (download_root args)
              # concat (map (\<lambda>(p, seg). MakeDirs p # seg)
                  (zip (map (\<lambda>(i, c). Join (download_root args)
                                (str_of_nat (Suc i) @ str ''. '' @ sanitize_filename ucd (fst c)))
                          (enumerate 0 course))
                       segs))
            @ [Print ''Download complete!''], Inr None)
         \<and> list_all2 (\<lambda>seg c. posted_videos seg = map snd (snd c) \<and> made_dirs seg = []
                               \<and> (snd c = [] \<longrightarrow> seg = []))
              segs course"
proof -
  let ?root = "download_root args"
  let ?segs = "chapter_segments ucd e token ?root 0 course 0"
  have "is_dicts course"
    by (rule get_course_dicts [OF assms(4)])
  then have dl: "downloader ucd e course args token =
      (MakeDirs ?root # chapters_trace ucd e token ?root 0 course 0, Inr ())"
    using assms(8) by (rule downloader_trace)
  have tr: "chapters_trace ucd e token ?root 0 course 0 =
      concat (map (\<lambda>(p, seg). MakeDirs p # seg)
        (zip (map (\<lambda>(i, c). Join ?root (str_of_nat (Suc i) @ str ''. '' @ sanitize_filename ucd (fst c)))
                (enumerate 0 course))
             ?segs))"
    using chapters_trace_segments [of ucd e token ?root 0 course 0] by (simp add: chapter_dir_def)
  have run: "main ucd e args =
           (t1 @ t2 @ [Prompt ''Enter username: '', Prompt ''Enter password: ''] @ t3
            @ MakeDirs ?root
              # concat (map (\<lambda>(p, seg). MakeDirs p # seg)
                  (zip (map (\<lambda>(i, c). Join ?root
                                (str_of_nat (Suc i) @ str ''. '' @ sanitize_filename ucd (fst c)))
                          (enumerate 0 course))
                       ?segs))
            @ [Print ''Download complete!''], Inr None)"
    using assms(1-7) by (auto simp: main_def dl tr)
  have segs: "list_all2 (\<lambda>seg c. posted_videos seg = map snd (snd c) \<and> made_dirs seg = []
                               \<and> (snd c = [] \<longrightarrow> seg = []))
              ?segs course"
    by (rule chapter_segments_videos)
  from run segs show ?thesis
    by (intro exI [of _ ?segs] conjI) assumption+
qed

theorem chapters_without_videos_are_valid_witness:
  "get_course latin1_alnum (page_payload [chapter_item ''Empty'' []]) = ([], Some [(str ''Empty'', [])])
   \<and> dirs_creatable latin1_alnum env_empty_chapter (download_root args_default) [(str ''Empty'', [])]
   \<and> main latin1_alnum env_empty_chapter args_default =
       ([HttpGet (str ''https://submeta.io/course''),
         Prompt ''Enter username: '', Prompt ''Enter password: '',
         LoginPost (str ''user'') (str ''secret''), LogInfo LoginSuccessful,
         Print ''Login successful! Token obtained'',
         MakeDirs (Root (str ''submeta-downloads'')),
         MakeDirs (Join (Root (str ''submeta-downloads'')) (str ''1. Empty'')),
         Print ''Download complete!''],
        Inr None)"
proof -
  let ?j = "page_payload [chapter_item ''Empty'' []]"
  have a: "length args_default = 2 \<or> length args_default = 3"
    by (simp add: args_default_def)
  have j: "get_json env_empty_chapter (args_default ! 1) = ([HttpGet (str ''https://submeta.io/course'')], ?j)"
    by (simp add: env_empty_chapter_def run_defs)
  have tj: "truthy ?j" by (simp add: page_payload_def)
  have c: "get_course latin1_alnum ?j = ([], Some [(str ''Empty'', [])])"
    by (simp add: eval_defs)
  have ne: "[(str ''Empty'', [])] \<noteq> ([] :: course_dict)" by simp
  have t: "get_token env_empty_chapter (username_input env_empty_chapter) (password_input env_empty_chapter) =
      ([LoginPost (str ''user'') (str ''secret''), LogInfo LoginSuccessful,
        Print ''Login successful! Token obtained''], JStr (str ''bearer''))"
    by (simp add: env_empty_chapter_def run_defs str_def)
  have tt: "truthy (JStr (str ''bearer''))" by (simp add: str_def)
  have mk: "dirs_creatable latin1_alnum env_empty_chapter (download_root args_default) [(str ''Empty'', [])]"
    by (simp add: dirs_creatable_def env_empty_chapter_def run_defs enumerate_eq_zip
          chapter_dir_def str_def)
  from chapters_without_videos_are_valid [OF a j tj c ne t tt mk] c mk show ?thesis
    by (auto simp: list_all2_Cons2 download_root_def args_default_def enumerate_eq_zip
          str_of_nat.simps str_def sanitize_filename_def isalnum_def)
qed

text \<open>
  The claim as worded fails twice. On the payload whose chapter list is empty the parse
  succeeds and logs nothing, yet \<open>main\<close> prints the parse failure and returns \<open>-1\<close>. And a
  course whose only chapter has no videos does not complete when the download path is
  empty: \<open>os.makedirs\<close> raises and the process ends with status 1.
\<close>

theorem empty_chapter_list_aborts:
  "spec_course (page_payload []) = Some []
   \<and> get_course latin1_alnum (page_payload []) = ([], Some [])
   \<and> main latin1_alnum env_empty_course args_default =
       ([HttpGet (str ''https://submeta.io/course''),
         Print ''Failed to parse course data. Check logs for more information.''],
        Inr (Some (- 1)))
   \<and> get_course latin1_alnum (page_payload [chapter_item ''Empty'' []]) = ([], Some [(str ''Empty'', [])])
   \<and> main latin1_alnum env_empty_chapter args_empty_path =
       ([HttpGet (str ''https://submeta.io/course''),
         Prompt ''Enter username: '', Prompt ''Enter password: '',
         LoginPost (str ''user'') (str ''secret''), LogInfo LoginSuccessful,
         Print ''Login successful! Token obtained''],
        Inl OSError)
   \<and> snd (script latin1_alnum env_empty_chapter args_empty_path) = 1"
  by (simp add: env_empty_course_def env_empty_chapter_def args_empty_path_def run_defs eval_defs)

end
